theory Spec2Isabelle
  imports Complex_Main
begin

section \<open>JavaScript values\<close>

text \<open>
  The valuation server (\<^verbatim>\<open>src/Server.js\<close>) handles untyped JSON: the request body, the
  bodies of the provider's responses and the reply it sends are all JavaScript values.

  A number is NaN, one of the two infinities, or a finite value held as a rational.
  Arithmetic on numbers rounds its exact result to the nearest IEEE 754 double, a tie
  going to the even significand, a result beyond the largest double becoming an
  infinity (\<open>round_double\<close> below).  The two zeros are one value: the program only
  tests a zero for truth and writes it into the reply, and JSON writes both as \<^verbatim>\<open>0\<close>.

  A string is held as its UTF-8 text, a list of bytes.  The functions that work
  character by character (\<^verbatim>\<open>trim\<close>, \<^verbatim>\<open>toUpperCase\<close>, \<^verbatim>\<open>\s\<close>) first cut the bytes into
  characters (\<open>chars\<close> below).  Lengths and slices are taken only of text made of
  letters, digits and spaces of ASCII, where a byte is a character and a UTF-16 code
  unit.  The text of the source's literals is kept byte for byte.

  An object is a plain object, as JSON gives it: what it inherits for its conversion to
  text and to a number is not overridden by data.
\<close>

datatype jsnum = NaN | PosInf | NegInf | Fin rat

datatype jsval =
    Undefined
  | Null
  | Bool bool
  | Num jsnum
  | Str string
  | Arr "jsval list"
  | Obj "(string \<times> jsval) list"

text \<open>Values thrown inside the handler.\<close>

datatype axios_error =
    ErrResponse jsval  \<comment> \<open>the provider answered outside 2xx; \<^verbatim>\<open>error.response.data\<close>\<close>
  | ECONNABORTED       \<comment> \<open>the 10 s timeout; no \<^verbatim>\<open>error.response\<close>\<close>
  | NoResponse         \<comment> \<open>network or other failure; no \<^verbatim>\<open>error.response\<close>\<close>

datatype exn =
    Axios axios_error
  | TypeError
  | Error jsval        \<comment> \<open>\<^verbatim>\<open>new Error(JSON.stringify(v))\<close> and \<^verbatim>\<open>new Error("...")\<close>\<close>

text \<open>Truthiness, as \<^verbatim>\<open>!x\<close>, \<^verbatim>\<open>x || y\<close> and \<^verbatim>\<open>if (x)\<close> test it.\<close>

fun truthy :: "jsval \<Rightarrow> bool" where
  "truthy Undefined = False"
| "truthy Null = False"
| "truthy (Bool b) = b"
| "truthy (Num n) = (n \<noteq> NaN \<and> n \<noteq> Fin 0)"
| "truthy (Str s) = (s \<noteq> [])"
| "truthy (Arr xs) = True"
| "truthy (Obj kvs) = True"

definition js_or :: "jsval \<Rightarrow> jsval \<Rightarrow> jsval" where
  \<comment> \<open>\<^verbatim>\<open>a || b\<close>\<close>
  "js_or a b = (if truthy a then a else b)"

definition nullish :: "jsval \<Rightarrow> bool" where
  "nullish v = (v = Undefined \<or> v = Null)"

text \<open>
  Reading a property.  An object is the list of its own properties, a name occurring
  once (of two entries with one name the first would be read); every other
  non-nullish value has none of the names this program reads (\<^verbatim>\<open>status\<close>,
  \<^verbatim>\<open>rent\<close>, \<^verbatim>\<open>average\<close>, \<^verbatim>\<open>data\<close>, \<^verbatim>\<open>code\<close>, \<^verbatim>\<open>message\<close>, ...), so the
  read gives \<^verbatim>\<open>undefined\<close>.  Reading a property of \<^verbatim>\<open>null\<close> or \<^verbatim>\<open>undefined\<close>
  throws.
\<close>

fun property :: "jsval \<Rightarrow> string \<Rightarrow> jsval" where
  "property (Obj kvs) k = (case map_of kvs k of Some v \<Rightarrow> v | None \<Rightarrow> Undefined)"
| "property v k = Undefined"

definition get :: "jsval \<Rightarrow> string \<Rightarrow> exn + jsval" where
  \<comment> \<open>\<^verbatim>\<open>v.k\<close>\<close>
  "get v k = (if nullish v then Inl TypeError else Inr (property v k))"

definition opt_get :: "jsval \<Rightarrow> string \<Rightarrow> jsval" where
  \<comment> \<open>\<^verbatim>\<open>v?.k\<close>\<close>
  "opt_get v k = (if nullish v then Undefined else property v k)"

definition array_includes :: "string list \<Rightarrow> jsval \<Rightarrow> bool" where
  \<comment> \<open>\<^verbatim>\<open>[..string literals..].includes(v)\<close>: only the same string is found\<close>
  "array_includes xs v = (v \<in> set (map Str xs))"

section \<open>The platform\<close>

text \<open>
  What ECMAScript does to turn text into a number and a number into text, and the
  Unicode upper-case form of a character outside ASCII, are not part of this program.
  They are parameters of the model: every theorem holds whatever these functions are,
  except where its statement says what it asks of them.
\<close>

record builtins =
  StringToNumber :: "string \<Rightarrow> jsnum"        \<comment> \<open>\<^verbatim>\<open>Number(s)\<close>, as \<^verbatim>\<open>isNaN\<close> applies it to a string\<close>
  parseFloat_text :: "string \<Rightarrow> jsnum"       \<comment> \<open>\<^verbatim>\<open>parseFloat(s)\<close> on a string\<close>
  Number_toString :: "jsnum \<Rightarrow> string"       \<comment> \<open>a number inside a template literal\<close>
  toLocaleString :: "jsnum \<Rightarrow> string"        \<comment> \<open>\<^verbatim>\<open>n.toLocaleString()\<close>\<close>
  upper_other :: "string \<Rightarrow> string"
    \<comment> \<open>the upper-case form of one character outside ASCII, other than those listed in
        \<open>ascii_upper_forms\<close> below\<close>

section \<open>Strings\<close>

definition upper_letters :: string where
  "upper_letters = ''ABCDEFGHIJKLMNOPQRSTUVWXYZ''"

definition lower_letters :: string where
  "lower_letters = ''abcdefghijklmnopqrstuvwxyz''"

definition digits :: string where
  "digits = ''0123456789''"

subsection \<open>Characters\<close>

text \<open>
  In UTF-8 a character of ASCII is one byte below 128; any other character is a lead
  byte followed by its continuation bytes (\<^verbatim>\<open>10xxxxxx\<close>, 128 to 191).
\<close>

definition is_ascii :: "char \<Rightarrow> bool" where
  "is_ascii c = ((of_char c :: nat) < 128)"

definition is_cont :: "char \<Rightarrow> bool" where
  "is_cont c = (128 \<le> (of_char c :: nat) \<and> (of_char c :: nat) < 192)"

function chars :: "string \<Rightarrow> string list" where
  "chars [] = []"
| "chars (b # bs) =
     (if is_ascii b then [b] # chars bs
      else (b # takeWhile is_cont bs) # chars (dropWhile is_cont bs))"
  by pat_completeness auto
termination
  by (relation "measure length") (simp_all add: length_dropWhile_le le_imp_less_Suc)

text \<open>
  White space, as \<^verbatim>\<open>trim()\<close>, \<^verbatim>\<open>\s\<close> and \<^verbatim>\<open>parseInt\<close> know it: tab, line feed, vertical
  tab, form feed, carriage return, space, U+00A0, U+1680, U+2000 to U+200A, U+2028,
  U+2029, U+202F, U+205F, U+3000 and U+FEFF.
\<close>

definition unicode_spaces :: "string list" where
  "unicode_spaces =
     map (\<lambda>c. [c]) [CHR 0x09, CHR 0x0A, CHR 0x0B, CHR 0x0C, CHR 0x0D, CHR 0x20]
     @ [CHR 0xC2, CHR 0xA0]
     # [CHR 0xE1, CHR 0x9A, CHR 0x80]
     # map (\<lambda>c. [CHR 0xE2, CHR 0x80, c])
         [CHR 0x80, CHR 0x81, CHR 0x82, CHR 0x83, CHR 0x84, CHR 0x85, CHR 0x86, CHR 0x87,
          CHR 0x88, CHR 0x89, CHR 0x8A, CHR 0xA8, CHR 0xA9, CHR 0xAF]
     @ [CHR 0xE2, CHR 0x81, CHR 0x9F]
     # [CHR 0xE3, CHR 0x80, CHR 0x80]
     # [CHR 0xEF, CHR 0xBB, CHR 0xBF]
     # []"

definition is_space :: "string \<Rightarrow> bool" where
  "is_space ch = (ch \<in> set unicode_spaces)"

subsection \<open>Upper case\<close>

definition upcase_char :: "char \<Rightarrow> char" where
  "upcase_char c =
     (case map_of (zip lower_letters upper_letters) c of Some u \<Rightarrow> u | None \<Rightarrow> c)"

text \<open>
  The characters outside ASCII whose upper-case form is ASCII text: sharp s (U+00DF),
  dotless i (U+0131), long s (U+017F) and the ligatures U+FB00 to U+FB06.
\<close>

definition ascii_upper_forms :: "(string \<times> string) list" where
  "ascii_upper_forms =
     [([CHR 0xC3, CHR 0x9F], ''SS''),
      ([CHR 0xC4, CHR 0xB1], ''I''),
      ([CHR 0xC5, CHR 0xBF], ''S''),
      ([CHR 0xEF, CHR 0xAC, CHR 0x80], ''FF''),
      ([CHR 0xEF, CHR 0xAC, CHR 0x81], ''FI''),
      ([CHR 0xEF, CHR 0xAC, CHR 0x82], ''FL''),
      ([CHR 0xEF, CHR 0xAC, CHR 0x83], ''FFI''),
      ([CHR 0xEF, CHR 0xAC, CHR 0x84], ''FFL''),
      ([CHR 0xEF, CHR 0xAC, CHR 0x85], ''ST''),
      ([CHR 0xEF, CHR 0xAC, CHR 0x86], ''ST'')]"

definition upper_char :: "builtins \<Rightarrow> string \<Rightarrow> string" where
  \<comment> \<open>the upper-case form of one character; white space has no case\<close>
  "upper_char P ch =
     (case ch of
        [c] \<Rightarrow> if is_ascii c then [upcase_char c] else upper_other P ch
      | _ \<Rightarrow>
          if is_space ch then ch
          else (case map_of ascii_upper_forms ch of
                  Some u \<Rightarrow> u
                | None \<Rightarrow> upper_other P ch))"

definition toUpperCase :: "builtins \<Rightarrow> string \<Rightarrow> string" where
  "toUpperCase P s = concat (map (upper_char P) (chars s))"

subsection \<open>White space\<close>

definition trim :: "string \<Rightarrow> string" where
  "trim s = concat (rev (dropWhile is_space (rev (dropWhile is_space (chars s)))))"

text \<open>\<^verbatim>\<open>s.replace(/\s+/g, " ")\<close>: every maximal run of white space becomes one space.\<close>

function collapse_chars :: "string list \<Rightarrow> string list" where
  "collapse_chars [] = []"
| "collapse_chars (c # cs) =
     (if is_space c then '' '' # collapse_chars (dropWhile is_space cs)
      else c # collapse_chars cs)"
  by pat_completeness auto
termination
  by (relation "measure length") (simp_all add: length_dropWhile_le le_imp_less_Suc)

definition collapse_ws :: "string \<Rightarrow> string" where
  "collapse_ws s = concat (collapse_chars (chars s))"

subsection \<open>Slices and searches\<close>

text \<open>
  \<^verbatim>\<open>s.slice(start, end)\<close> with JavaScript's treatment of negative and out-of-range
  indices; \<^verbatim>\<open>s.slice(start)\<close> runs to the end of the string.
\<close>

definition slice :: "string \<Rightarrow> int \<Rightarrow> int \<Rightarrow> string" where
  "slice s start end =
     (let len = int (length s);
          from = (if start < 0 then max (len + start) 0 else min start len);
          to = (if end < 0 then max (len + end) 0 else min end len)
      in take (nat (to - from)) (drop (nat from) s))"

definition slice_from :: "string \<Rightarrow> int \<Rightarrow> string" where
  "slice_from s start = slice s start (int (length s))"

fun contains :: "string \<Rightarrow> string \<Rightarrow> bool" where
  \<comment> \<open>\<^verbatim>\<open>hay.includes(needle)\<close> on strings\<close>
  "contains [] needle = (needle = [])"
| "contains (c # cs) needle =
     (take (length needle) (c # cs) = needle \<or> contains cs needle)"

fun join :: "string \<Rightarrow> string list \<Rightarrow> string" where
  "join sep [] = []"
| "join sep [x] = x"
| "join sep (x # y # ys) = x @ sep @ join sep (y # ys)"

section \<open>Regular expressions of the postcode form\<close>

text \<open>
  The one regular expression tested against whole strings is a sequence of character
  classes, each with a repetition range, between \<^verbatim>\<open>^\<close> and \<^verbatim>\<open>$\<close>.  \<^verbatim>\<open>test\<close>
  succeeds iff some way of choosing the repetition counts consumes the whole string.
  With the \<^verbatim>\<open>i\<close> flag a character belongs to a class iff its upper-case form is the
  upper-case form of a member.  The classes hold ASCII letters and digits only, and
  without the \<^verbatim>\<open>u\<close> flag a character outside ASCII is never folded onto an ASCII one
  (long s does not match \<^verbatim>\<open>[A-Z]\<close>): no byte of such a character is in a class, so
  matching byte by byte is matching character by character.
\<close>

type_synonym rx_item = "string \<times> nat \<times> nat"

definition in_class :: "bool \<Rightarrow> string \<Rightarrow> char \<Rightarrow> bool" where
  "in_class ci cls c =
     (if ci then upcase_char c \<in> set (map upcase_char cls) else c \<in> set cls)"

fun rx_match :: "bool \<Rightarrow> rx_item list \<Rightarrow> string \<Rightarrow> bool" where
  "rx_match ci [] s = (s = [])"
| "rx_match ci ((cls, lo, hi) # rest) [] = (lo = 0 \<and> rx_match ci rest [])"
| "rx_match ci ((cls, lo, hi) # rest) (c # cs) =
     ((lo = 0 \<and> rx_match ci rest (c # cs)) \<or>
      (0 < hi \<and> in_class ci cls c \<and> rx_match ci ((cls, lo - 1, hi - 1) # rest) cs))"

definition postcode_regex :: "rx_item list" where
  \<comment> \<open>\<^verbatim>\<open>^[A-Z]{1,2}[0-9R][0-9A-Z]? [0-9][A-Z]{2}$\<close>\<close>
  "postcode_regex =
     [(upper_letters, 1, 2), (digits @ ''R'', 1, 1), (digits @ upper_letters, 0, 1),
      ('' '', 1, 1), (digits, 1, 1), (upper_letters, 2, 2)]"

section \<open>Postcode helpers\<close>

definition normalizePostcode :: "builtins \<Rightarrow> jsval \<Rightarrow> exn + string" where
  \<comment> \<open>a truthy value that is not a string has no \<^verbatim>\<open>trim\<close> method\<close>
  "normalizePostcode P pc =
     (if \<not> truthy pc then Inr ''''
      else case pc of
        Str s \<Rightarrow> Inr (collapse_ws (toUpperCase P (trim s)))
      | _ \<Rightarrow> Inl TypeError)"

definition getOutcode :: "string \<Rightarrow> string" where
  \<comment> \<open>\<^verbatim>\<open>fullPostcode.split(" ")[0]\<close>\<close>
  "getOutcode fullPostcode = takeWhile (\<lambda>c. c \<noteq> CHR '' '') fullPostcode"

definition isValidUKPostcode :: "string \<Rightarrow> bool" where
  \<comment> \<open>the pattern carries the \<^verbatim>\<open>i\<close> flag\<close>
  "isValidUKPostcode postcode = rx_match True postcode_regex postcode"

definition tryAutoFormatPostcode :: "builtins \<Rightarrow> jsval \<Rightarrow> exn + string option" where
  \<comment> \<open>\<^verbatim>\<open>None\<close> is the source's \<^verbatim>\<open>null\<close>; \<^verbatim>\<open>[^A-Z0-9]\<close> with the \<^verbatim>\<open>i\<close> flag leaves the
      letters and digits of ASCII\<close>
  "tryAutoFormatPostcode P input =
     (case input of
        Str s \<Rightarrow>
          (let cleaned = toUpperCase P (filter (in_class True (upper_letters @ digits)) s) in
           if length cleaned < 5 \<or> length cleaned > 7 then Inr None
           else let formatted = slice cleaned 0 (- 3) @ '' '' @ slice_from cleaned (- 3) in
                if isValidUKPostcode formatted then Inr (Some formatted) else Inr None)
      | _ \<Rightarrow> Inl TypeError)"

text \<open>
  The wording of the specification, for comparison.  \<open>spec_normalize\<close> trims (white
  space is dropped from the front, then from the back), upper-cases, and collapses
  every run of white space to one space; \<open>canonical_postcode\<close> is the canonical grammar
  read case-sensitively and written out for each length it admits.
\<close>

fun lstrip :: "string list \<Rightarrow> string list" where
  "lstrip [] = []"
| "lstrip (c # cs) = (if is_space c then lstrip cs else c # cs)"

fun rstrip :: "string list \<Rightarrow> string list" where
  "rstrip [] = []"
| "rstrip (c # cs) = (if is_space c \<and> rstrip cs = [] then [] else c # rstrip cs)"

fun squeeze :: "bool \<Rightarrow> string list \<Rightarrow> string list" where
  \<comment> \<open>the flag says that the character before was white space\<close>
  "squeeze in_run [] = []"
| "squeeze in_run (c # cs) =
     (if is_space c then (if in_run then squeeze True cs else '' '' # squeeze True cs)
      else c # squeeze False cs)"

definition spec_normalize :: "builtins \<Rightarrow> string \<Rightarrow> string" where
  "spec_normalize P raw =
     concat (squeeze False (chars (toUpperCase P (concat (rstrip (lstrip (chars raw)))))))"

definition is_upper :: "char \<Rightarrow> bool" where
  "is_upper c = (c \<in> set upper_letters)"

definition is_digit :: "char \<Rightarrow> bool" where
  "is_digit c = (c \<in> set digits)"

definition is_alnum :: "char \<Rightarrow> bool" where
  "is_alnum c = (c \<in> set (upper_letters @ lower_letters @ digits))"

definition canonical_postcode :: "string \<Rightarrow> bool" where
  \<comment> \<open>\<^verbatim>\<open>^[A-Z]{1,2}[0-9R][0-9A-Z]? [0-9][A-Z]{2}$\<close>, by the length of the part before the space\<close>
  "canonical_postcode s =
     (case s of
        [a, x, sp, d, l1, l2] \<Rightarrow>
          is_upper a \<and> (is_digit x \<or> x = CHR ''R'')
          \<and> sp = CHR '' '' \<and> is_digit d \<and> is_upper l1 \<and> is_upper l2
      | [a, x, y, sp, d, l1, l2] \<Rightarrow>
          is_upper a
          \<and> (((is_digit x \<or> x = CHR ''R'') \<and> (is_digit y \<or> is_upper y))
               \<or> (is_upper x \<and> (is_digit y \<or> y = CHR ''R'')))
          \<and> sp = CHR '' '' \<and> is_digit d \<and> is_upper l1 \<and> is_upper l2
      | [a, b, x, y, sp, d, l1, l2] \<Rightarrow>
          is_upper a \<and> is_upper b \<and> (is_digit x \<or> x = CHR ''R'') \<and> (is_digit y \<or> is_upper y)
          \<and> sp = CHR '' '' \<and> is_digit d \<and> is_upper l1 \<and> is_upper l2
      | _ \<Rightarrow> False)"

section \<open>Numbers\<close>

subsection \<open>Rounding to a double\<close>

text \<open>
  For \<open>a > 0\<close>, \<open>binade a\<close> is the exponent \<open>e\<close> with \<open>2 powi e \<le> a < 2 powi (e + 1)\<close>.
  A double has 53 significant bits and exponents from -1022 to 1023, so the doubles
  around \<open>a\<close> are the multiples of \<open>2 powi (e - 52)\<close>; below \<open>2 powi (- 1022)\<close> the
  spacing stays \<open>2 powi (- 1074)\<close>.  \<open>round_double q\<close> is the multiple nearest to \<open>q\<close>,
  the even one of two equally near, and an infinity from \<open>2 ^ 1024\<close> on.
\<close>

function ilog2 :: "int \<Rightarrow> int" where
  "ilog2 n = (if n < 2 then 0 else 1 + ilog2 (n div 2))"
  by pat_completeness auto
termination
  by (relation "measure nat") simp_all

declare ilog2.simps [simp del]

definition binade :: "rat \<Rightarrow> int" where
  "binade a =
     (if 1 \<le> a then ilog2 \<lfloor>a\<rfloor>
      else - (1 + ilog2 (\<lceil>1 / a\<rceil> - 1)))"

definition round_half_even :: "rat \<Rightarrow> int" where
  "round_half_even x =
     (let f = \<lfloor>x\<rfloor>; r = x - of_int f
      in if r < 1 / 2 then f
         else if 1 / 2 < r then f + 1
         else if even f then f else f + 1)"

definition round_double :: "rat \<Rightarrow> jsnum" where
  "round_double q =
     (if q = 0 then Fin 0
      else let e = max (binade \<bar>q\<bar>) (- 1022);
               ulp = 2 powi (e - 52);
               r = of_int (round_half_even (\<bar>q\<bar> / ulp)) * ulp
           in if 2 ^ 1024 \<le> r then (if 0 < q then PosInf else NegInf)
              else Fin (if 0 < q then r else - r))"

subsection \<open>Conversions and arithmetic\<close>

fun ToString :: "builtins \<Rightarrow> jsval \<Rightarrow> string" where
  "ToString P Undefined = ''undefined''"
| "ToString P Null = ''null''"
| "ToString P (Bool b) = (if b then ''true'' else ''false'')"
| "ToString P (Num n) = Number_toString P n"
| "ToString P (Str s) = s"
| "ToString P (Arr xs) = join '','' (map (\<lambda>x. if nullish x then [] else ToString P x) xs)"
| "ToString P (Obj kvs) = ''[object Object]''"

fun ToNumber :: "builtins \<Rightarrow> jsval \<Rightarrow> jsnum" where
  "ToNumber P Undefined = NaN"
| "ToNumber P Null = Fin 0"
| "ToNumber P (Bool b) = Fin (if b then 1 else 0)"
| "ToNumber P (Num n) = n"
| "ToNumber P (Str s) = StringToNumber P s"
| "ToNumber P (Arr xs) = StringToNumber P (ToString P (Arr xs))"
| "ToNumber P (Obj kvs) = NaN"

definition isNaN :: "builtins \<Rightarrow> jsval \<Rightarrow> bool" where
  "isNaN P v = (ToNumber P v = NaN)"

definition parseFloat :: "builtins \<Rightarrow> jsval \<Rightarrow> jsnum" where
  \<comment> \<open>a number reads back from its own text as itself\<close>
  "parseFloat P v = (case v of Num n \<Rightarrow> n | _ \<Rightarrow> parseFloat_text P (ToString P v))"

definition digit_value :: "char \<Rightarrow> int" where
  "digit_value c = int (length (takeWhile (\<lambda>d. d \<noteq> c) digits))"

definition parseInt_text :: "string \<Rightarrow> jsnum" where
  \<comment> \<open>\<^verbatim>\<open>parseInt(s, 10)\<close>: leading white space, a sign, the longest run of digits\<close>
  "parseInt_text s =
     (let s1 = concat (dropWhile is_space (chars s));
          neg = (take 1 s1 = ''-'');
          s2 = (if take 1 s1 = ''-'' \<or> take 1 s1 = ''+'' then drop 1 s1 else s1);
          ds = takeWhile is_digit s2;
          n = foldl (\<lambda>a c. 10 * a + digit_value c) 0 ds
      in if ds = [] then NaN else round_double (of_int (if neg then - n else n)))"

definition parseInt10 :: "builtins \<Rightarrow> jsval \<Rightarrow> jsnum" where
  "parseInt10 P v = parseInt_text (ToString P v)"

definition num_sign :: "jsnum \<Rightarrow> int" where
  "num_sign x = (case x of NaN \<Rightarrow> 0 | PosInf \<Rightarrow> 1 | NegInf \<Rightarrow> - 1
                 | Fin a \<Rightarrow> (if a < 0 then - 1 else if a = 0 then 0 else 1))"

definition js_times :: "jsnum \<Rightarrow> jsnum \<Rightarrow> jsnum" where
  \<comment> \<open>\<^verbatim>\<open>x * y\<close>: the exact product of two finite numbers, rounded to a double\<close>
  "js_times x y =
     (case (x, y) of
        (Fin a, Fin b) \<Rightarrow> round_double (a * b)
      | _ \<Rightarrow> (if x = NaN \<or> y = NaN \<or> num_sign x * num_sign y = 0 then NaN
              else if 0 < num_sign x * num_sign y then PosInf else NegInf))"

definition Math_round :: "jsnum \<Rightarrow> jsnum" where
  \<comment> \<open>the nearest integer, a tie going up; the nearest integer of a double is a double\<close>
  "Math_round x = (case x of Fin a \<Rightarrow> Fin (of_int \<lfloor>a + 1 / 2\<rfloor>) | _ \<Rightarrow> x)"

section \<open>The provider\<close>

text \<open>
  One outbound call either resolves with the parsed body of a 2xx response or rejects.
  The provider is a function from the URL called to the outcome; the handler's result
  is paired with the list of URLs it called, in order.  \<open>key\<close> is the text the API key
  has inside a URL.
\<close>

datatype outcome = Resolved jsval | Rejected axios_error

type_synonym upstream = "string \<Rightarrow> outcome"

definition callPropertyDataAPI :: "upstream \<Rightarrow> string \<Rightarrow> exn + jsval" where
  \<comment> \<open>returns \<^verbatim>\<open>response.data\<close>; logs and rethrows every rejection\<close>
  "callPropertyDataAPI upstream url =
     (case upstream url of Resolved d \<Rightarrow> Inr d | Rejected e \<Rightarrow> Inl (Axios e))"

definition demand_rent_url :: "string \<Rightarrow> string \<Rightarrow> string" where
  "demand_rent_url key postcode =
     ''https://api.propertydata.co.uk/demand-rent?key='' @ key @ ''&postcode='' @ postcode"

definition local_market_url :: "string \<Rightarrow> string \<Rightarrow> string" where
  "local_market_url key postcode =
     ''https://api.propertydata.co.uk/local-market?key='' @ key @ ''&postcode='' @ postcode"

definition sold_prices_url :: "string \<Rightarrow> string \<Rightarrow> string \<Rightarrow> string" where
  "sold_prices_url key postcode type =
     ''https://api.propertydata.co.uk/sold-prices?key='' @ key @ ''&postcode='' @ postcode
       @ ''&type='' @ type @ ''&max_age=12''"

definition sold_prices_fallback_url :: "string \<Rightarrow> string \<Rightarrow> string" where
  "sold_prices_fallback_url key postcode =
     ''https://api.propertydata.co.uk/sold-prices?key='' @ key @ ''&postcode='' @ postcode
       @ ''&max_age=12''"

section \<open>The valuation route\<close>

text \<open>
  The four values the handler destructures from the request body; a field the body
  lacks is \<^verbatim>\<open>undefined\<close>.
\<close>

record request =
  postalCode :: jsval
  propertyType :: jsval
  purpose :: jsval
  bedrooms :: jsval

datatype http_reply =
    Reply (reply_status: nat) (reply_body: jsval)
      \<comment> \<open>\<^verbatim>\<open>res.status(n).json(v)\<close>; \<^verbatim>\<open>res.json(v)\<close> is status 200\<close>
  | NoReply

definition error_body :: "string \<Rightarrow> jsval" where
  "error_body msg = Obj [(''error'', Str msg)]"

definition validPropertyTypes :: "string list" where
  "validPropertyTypes =
     [''detached'', ''semi-detached'', ''terraced'', ''flat'', ''maisonette'', ''bungalow'']"

definition validate :: "request \<Rightarrow> http_reply option" where
  \<comment> \<open>the checks before the postcode is touched; \<open>None\<close> when all of them pass\<close>
  "validate req =
     (if \<not> truthy (postalCode req) \<or> \<not> truthy (propertyType req) \<or> \<not> truthy (purpose req)
      then Some (Reply 400
             (error_body ''Missing required fields: postalCode, propertyType, purpose''))
      else if \<not> array_includes validPropertyTypes (propertyType req)
      then Some (Reply 400
             (error_body (''Invalid property type. Must be one of: ''
                            @ join '', '' validPropertyTypes)))
      else if \<not> array_includes [''sale'', ''rent''] (purpose req)
      then Some (Reply 400 (error_body (''Purpose must be 'sale' or 'rent'' @ [CHR 0x27])))
      else if purpose req = Str ''rent''
              \<and> (\<not> truthy (bedrooms req)
                   \<or> \<not> array_includes [''1'', ''2'', ''3'', ''4''] (bedrooms req))
      then Some (Reply 400
             (error_body ''Number of bedrooms (1-4) is required for rental estimates''))
      else None)"

definition postcode_stage :: "builtins \<Rightarrow> jsval \<Rightarrow> exn + string option" where
  \<comment> \<open>Step 1 of the handler; \<open>Inr None\<close> is the 400 reply for an unusable postcode\<close>
  "postcode_stage P raw =
     (case normalizePostcode P raw of
        Inl e \<Rightarrow> Inl e
      | Inr fullPostcode \<Rightarrow>
          if \<not> isValidUKPostcode fullPostcode then
            (case tryAutoFormatPostcode P raw of
               Inl e \<Rightarrow> Inl e
             | Inr None \<Rightarrow> Inr None
             | Inr (Some autoFormatted) \<Rightarrow>
                 if truthy (Str autoFormatted) then Inr (Some autoFormatted) else Inr None)
          else Inr (Some fullPostcode))"

subsection \<open>Rent\<close>

definition demand_rent_try :: "upstream \<Rightarrow> string \<Rightarrow> jsval \<Rightarrow> jsval" where
  \<comment> \<open>the \<^verbatim>\<open>try\<close> block of tries 1 and 2: the value of \<^verbatim>\<open>data\<close> after it\<close>
  "demand_rent_try upstream url data =
     (case callPropertyDataAPI upstream url of
        Inl e \<Rightarrow> data
      | Inr d \<Rightarrow>
          (case get d ''status'' of
             Inl e \<Rightarrow> data
           | Inr st \<Rightarrow> if st \<noteq> Str ''error'' then d else data))"

definition usable_payload :: "outcome \<Rightarrow> jsval option" where
  \<comment> \<open>the payload a demand-rent try leaves in \<^verbatim>\<open>data\<close> for the later \<^verbatim>\<open>!data\<close> tests to
      find: the call resolved, reading \<^verbatim>\<open>status\<close> did not throw, the status is not
      \<^verbatim>\<open>"error"\<close>, and the body is truthy (as every object is)\<close>
  "usable_payload out =
     (case out of
        Resolved d \<Rightarrow>
          if \<not> nullish d \<and> property d ''status'' \<noteq> Str ''error'' \<and> truthy d then Some d
          else None
      | Rejected e \<Rightarrow> None)"

definition rent_data :: "string \<Rightarrow> upstream \<Rightarrow> string \<Rightarrow> string \<Rightarrow> jsval option \<times> string list" where
  \<comment> \<open>the three tries; \<open>None\<close> when the third call rejects (the 404 reply)\<close>
  "rent_data key upstream fullPostcode outcode =
     (let url1 = demand_rent_url key outcode;
          data1 = demand_rent_try upstream url1 Null;
          (data2, calls2) =
            (if \<not> truthy data1 \<and> 3 < length outcode then
               let parentOutcode = slice outcode 0 (- 1);
                   url2 = demand_rent_url key parentOutcode
               in (demand_rent_try upstream url2 data1, [url1, url2])
             else (data1, [url1]))
      in if \<not> truthy data2 then
           (let url3 = local_market_url key fullPostcode in
            case callPropertyDataAPI upstream url3 of
              Inl e \<Rightarrow> (None, calls2 @ [url3])
            | Inr d \<Rightarrow> (Some d, calls2 @ [url3]))
         else (Some data2, calls2))"

definition third_try ::
  "string \<Rightarrow> upstream \<Rightarrow> string \<Rightarrow> string list \<Rightarrow> jsval option \<times> string list"
where
  \<comment> \<open>try 3 on its own, after the calls already made: whatever body a resolved call
      carries becomes \<^verbatim>\<open>data\<close>\<close>
  "third_try key upstream fullPostcode calls =
     (case upstream (local_market_url key fullPostcode) of
        Resolved d \<Rightarrow> (Some d, calls @ [local_market_url key fullPostcode])
      | Rejected e \<Rightarrow> (None, calls @ [local_market_url key fullPostcode]))"

definition multipliers :: "(jsnum \<times> jsnum) list" where
  \<comment> \<open>\<^verbatim>\<open>{ 1: 0.8, 2: 1.0, 3: 1.3, 4: 1.6 }\<close>: a decimal literal is the double nearest to
      it, and 1.0 is a double\<close>
  "multipliers =
     [(Fin 1, round_double (8 / 10)), (Fin 2, Fin 1),
      (Fin 3, round_double (13 / 10)), (Fin 4, round_double (16 / 10))]"

definition multiplier_for :: "jsnum \<Rightarrow> jsnum" where
  \<comment> \<open>\<^verbatim>\<open>multipliers[bed] || 1.0\<close>\<close>
  "multiplier_for bed =
     (case map_of multipliers bed of
        Some m \<Rightarrow> (if truthy (Num m) then m else Fin 1)
      | None \<Rightarrow> Fin 1)"

definition spec_multiplier :: "jsval \<Rightarrow> rat" where
  \<comment> \<open>the specification's table \<^verbatim>\<open>{1: 0.8, 2: 1.0, 3: 1.3, 4: 1.6}\<close>, default 1.0, over the
      bedroom counts as the request carries them\<close>
  "spec_multiplier beds =
     (if beds = Str ''1'' then 8 / 10
      else if beds = Str ''2'' then 1
      else if beds = Str ''3'' then 13 / 10
      else if beds = Str ''4'' then 16 / 10
      else 1)"

definition adjust :: "builtins \<Rightarrow> jsval \<Rightarrow> jsval \<Rightarrow> jsval \<times> string" where
  \<comment> \<open>\<^verbatim>\<open>adjustedRent\<close> and \<^verbatim>\<open>adjustmentNote\<close> from \<^verbatim>\<open>baseRent\<close> and \<^verbatim>\<open>bedrooms\<close>\<close>
  "adjust P baseRent beds =
     (if truthy baseRent \<and> \<not> isNaN P baseRent then
        let base = parseFloat P baseRent;
            bed = parseInt10 P beds;
            multiplier = multiplier_for bed
        in (Num (Math_round (js_times base multiplier)),
            ''Adjusted from area average ('' @ [CHR 0xC2, CHR 0xA3] @ toLocaleString P base
              @ '') for a '' @ Number_toString P bed @ ''-bedroom property.'')
      else (Str ''N/A'', []))"

definition rent_result :: "builtins \<Rightarrow> string \<Rightarrow> jsval \<Rightarrow> jsval \<Rightarrow> exn + jsval" where
  "rent_result P fullPostcode beds data =
     (case get data ''rent'' of
        Inl e \<Rightarrow> Inl e
      | Inr rent \<Rightarrow>
          let baseRent = opt_get rent ''average'';
              (adjustedRent, adjustmentNote) = adjust P baseRent beds
          in Inr (Obj
               [(''type'', Str ''rent''),
                (''postcode'', js_or (property data ''postcode'') (Str fullPostcode)),
                (''rentalDemand'',
                   js_or (property data ''rental_demand_rating'')
                     (js_or (property data ''demand_rating'') (Str ''N/A''))),
                (''totalForRent'', js_or (property data ''total_for_rent'') (Str ''N/A'')),
                (''daysOnMarket'', js_or (property data ''days_on_market'') (Str ''N/A'')),
                (''monthsOfInventory'',
                   js_or (property data ''months_of_inventory'') (Str ''N/A'')),
                (''averageRent'', adjustedRent),
                (''originalAverageRent'', js_or baseRent (Str ''N/A'')),
                (''yield'', js_or (opt_get (property data ''yield'') ''average'') (Str ''N/A'')),
                (''note'', js_or (Str adjustmentNote) Null)]))"

definition rent_valuation ::
  "builtins \<Rightarrow> string \<Rightarrow> upstream \<Rightarrow> request \<Rightarrow> string \<Rightarrow> string \<Rightarrow> (exn + http_reply) \<times> string list"
where
  "rent_valuation P key upstream req fullPostcode outcode =
     (case rent_data key upstream fullPostcode outcode of
        (None, calls) \<Rightarrow>
          (Inr (Reply 404 (error_body
             ''No rental market data available for this area. Try a nearby postcode.'')), calls)
      | (Some data, calls) \<Rightarrow>
          (case rent_result P fullPostcode (bedrooms req) data of
             Inl e \<Rightarrow> (Inl e, calls)
           | Inr result \<Rightarrow> (Inr (Reply 200 result), calls)))"

subsection \<open>Sale\<close>

definition sold_prices_try :: "upstream \<Rightarrow> string \<Rightarrow> exn + jsval" where
  \<comment> \<open>one \<^verbatim>\<open>try\<close> block of the sale path: the payload, or what the block throws
      (the fallback block throws an \<^verbatim>\<open>Error\<close> with a fixed message, which its
      \<^verbatim>\<open>catch\<close> never reads)\<close>
  "sold_prices_try upstream url =
     (case callPropertyDataAPI upstream url of
        Inl e \<Rightarrow> Inl e
      | Inr saleData \<Rightarrow>
          (case get saleData ''status'' of
             Inl e \<Rightarrow> Inl e
           | Inr st \<Rightarrow> if st = Str ''error'' then Inl (Error saleData) else Inr saleData))"

definition type_unsupported :: "exn \<Rightarrow> exn + bool" where
  \<comment> \<open>\<^verbatim>\<open>error.response?.data?.code === "902" && error.response.data.message.includes("type")\<close>;
      only a rejection that carries a response has \<^verbatim>\<open>error.response\<close>\<close>
  "type_unsupported error =
     (case error of
        Axios (ErrResponse d) \<Rightarrow>
          if opt_get d ''code'' = Str ''902'' then
            (case property d ''message'' of
               Str m \<Rightarrow> Inr (contains m ''type'')
             | Arr xs \<Rightarrow> Inr (Str ''type'' \<in> set xs)
             | _ \<Rightarrow> Inl TypeError)
          else Inr False
      | _ \<Rightarrow> Inr False)"

definition sale_result :: "builtins \<Rightarrow> jsval \<Rightarrow> string \<Rightarrow> jsval \<Rightarrow> jsval \<Rightarrow> jsval" where
  "sale_result P ptype fullPostcode saleData usedType =
     Obj
       [(''type'', Str ''sale''),
        (''postcode'', js_or (property saleData ''postcode'') (Str fullPostcode)),
        (''propertyType'',
           if usedType = Str ''all''
           then Str (ToString P ptype @ '' (not found '' @ [CHR 0xE2, CHR 0x80, CHR 0x93]
                       @ '' showing area average)'')
           else ptype),
        (''average'', js_or (opt_get (property saleData ''data'') ''average'') (Str ''N/A'')),
        (''range70'', js_or (opt_get (property saleData ''data'') ''70pc_range'') (Arr [])),
        (''range90'', js_or (opt_get (property saleData ''data'') ''90pc_range'') (Arr [])),
        (''pointsAnalysed'',
           js_or (opt_get (property saleData ''data'') ''points_analysed'') (Num (Fin 0))),
        (''note'',
           if usedType = Str ''all''
           then Str ([CHR 0xE2, CHR 0x9A, CHR 0xA0, CHR 0xEF, CHR 0xB8, CHR 0x8F]
                       @ '' No recent sales for '' @ [CHR 0x22] @ ToString P ptype @ [CHR 0x22]
                       @ '' in this postcode. Showing overall area average.'')
           else Null)]"

definition sale_valuation ::
  "builtins \<Rightarrow> string \<Rightarrow> upstream \<Rightarrow> request \<Rightarrow> string \<Rightarrow> (exn + http_reply) \<times> string list"
where
  "sale_valuation P key upstream req fullPostcode =
     (let url = sold_prices_url key fullPostcode (ToString P (propertyType req)) in
      case sold_prices_try upstream url of
        Inr saleData \<Rightarrow>
          (Inr (Reply 200
             (sale_result P (propertyType req) fullPostcode saleData (propertyType req))), [url])
      | Inl error \<Rightarrow>
          (case type_unsupported error of
             Inl e \<Rightarrow> (Inl e, [url])
           | Inr False \<Rightarrow> (Inl error, [url])
           | Inr True \<Rightarrow>
               (let fallbackUrl = sold_prices_fallback_url key fullPostcode in
                case sold_prices_try upstream fallbackUrl of
                  Inl fallbackError \<Rightarrow>
                    (Inr (Reply 404 (error_body
                       (''No recent sale data for '' @ ToString P (propertyType req)
                          @ '' properties in '' @ fullPostcode
                          @ ''. This area may not have this property type.''))),
                     [url, fallbackUrl])
                | Inr saleData \<Rightarrow>
                    (Inr (Reply 200
                       (sale_result P (propertyType req) fullPostcode saleData (Str ''all''))),
                     [url, fallbackUrl]))))"

subsection \<open>The handler\<close>

definition handle ::
  "builtins \<Rightarrow> string \<Rightarrow> upstream \<Rightarrow> request \<Rightarrow> (exn + http_reply) \<times> string list"
where
  \<comment> \<open>the body of the outer \<^verbatim>\<open>try\<close>\<close>
  "handle P key upstream req =
     (case validate req of
        Some rejection \<Rightarrow> (Inr rejection, [])
      | None \<Rightarrow>
          (case postcode_stage P (postalCode req) of
             Inl e \<Rightarrow> (Inl e, [])
           | Inr None \<Rightarrow>
               (Inr (Reply 400 (error_body ''Invalid UK postcode format. Example: SW1A 1AA'')), [])
           | Inr (Some fullPostcode) \<Rightarrow>
               (let outcode = getOutcode fullPostcode in
                if purpose req = Str ''rent''
                then rent_valuation P key upstream req fullPostcode outcode
                else if purpose req = Str ''sale''
                then sale_valuation P key upstream req fullPostcode
                else (Inr NoReply, []))))"

definition outer_catch :: "(exn + http_reply) \<times> string list \<Rightarrow> http_reply \<times> string list" where
  "outer_catch r =
     (case r of
        (Inl e, calls) \<Rightarrow>
          (Reply 500 (error_body ''Failed to fetch valuation. Please try again later.''), calls)
      | (Inr reply, calls) \<Rightarrow> (reply, calls))"

definition valuation ::
  "builtins \<Rightarrow> string \<Rightarrow> upstream \<Rightarrow> request \<Rightarrow> http_reply \<times> string list"
where
  \<comment> \<open>\<^verbatim>\<open>POST /api/valuation\<close>: the reply and the URLs called; the outer \<^verbatim>\<open>catch\<close>
      answers 500 to whatever the body throws\<close>
  "valuation P key upstream req = outer_catch (handle P key upstream req)"

subsection \<open>Worked examples\<close>

text \<open>
  To evaluate the handler on a concrete request the platform's conversions have to be
  fixed.  The examples below carry numbers as numbers, never as text, so the two readers
  are not reached; what this instance prints for a number appears only inside the
  adjustment note, whose wording no example states; and the examples hold no character
  outside ASCII other than white space and those of \<open>ascii_upper_forms\<close>, so the last
  field is not reached either.
\<close>

definition example_builtins :: builtins where
  "example_builtins =
     \<lparr>StringToNumber = (\<lambda>s. NaN), parseFloat_text = (\<lambda>s. NaN),
      Number_toString = (\<lambda>n. ''#''), toLocaleString = (\<lambda>n. ''#''),
      upper_other = (\<lambda>ch. ch)\<rparr>"


section \<open>Characters and upper-casing\<close>

lemma concat_chars: "concat (chars s) = s"
  by (induction s rule: chars.induct) simp_all

lemma chars_ascii: "\<forall>c \<in> set s. is_ascii c \<Longrightarrow> chars s = map (\<lambda>c. [c]) s"
  by (induction s) simp_all

lemma chars_shape:
  "ch \<in> set (chars s) \<Longrightarrow> (\<exists>c. ch = [c] \<and> is_ascii c) \<or> (\<forall>c \<in> set ch. \<not> is_ascii c)"
proof (induction s arbitrary: ch rule: chars.induct)
  case 1
  then show ?case by simp
next
  case (2 b bs)
  have cont: "\<And>c. c \<in> set (takeWhile is_cont bs) \<Longrightarrow> \<not> is_ascii c"
    by (auto dest!: set_takeWhileD simp add: is_cont_def is_ascii_def)
  from 2 cont show ?case
    by (auto split: if_splits)
qed

lemma length_letters: "length lower_letters = length upper_letters"
  by (simp add: lower_letters_def upper_letters_def)

lemma upcase_not_lower: "c \<notin> set lower_letters \<Longrightarrow> upcase_char c = c"
  using map_of_zip_is_None [OF length_letters, of c]
  by (simp add: upcase_char_def)

lemma upcase_lower: "c \<in> set lower_letters \<Longrightarrow> upcase_char c \<in> set upper_letters"
proof -
  assume "c \<in> set lower_letters"
  then obtain u where u: "map_of (zip lower_letters upper_letters) c = Some u"
    using map_of_zip_is_Some [OF length_letters, of c] by blast
  then have "(c, u) \<in> set (zip lower_letters upper_letters)"
    by (rule map_of_SomeD)
  then have "u \<in> set upper_letters"
    by (rule set_zip_rightD)
  with u show ?thesis by (simp add: upcase_char_def)
qed

lemma upper_not_lower: "c \<in> set upper_letters \<Longrightarrow> c \<notin> set lower_letters"
  by (auto simp add: lower_letters_def upper_letters_def)

lemma upcase_never_lower: "upcase_char c \<notin> set lower_letters"
  by (cases "c \<in> set lower_letters")
     (simp_all add: upcase_not_lower upcase_lower upper_not_lower)

lemma lower_ascii: "c \<in> set lower_letters \<Longrightarrow> is_ascii c"
  by (auto simp add: lower_letters_def is_ascii_def)

lemma upper_ascii: "c \<in> set upper_letters \<Longrightarrow> is_ascii c"
  by (auto simp add: upper_letters_def is_ascii_def)

lemma digit_ascii: "c \<in> set digits \<Longrightarrow> is_ascii c"
  by (auto simp add: digits_def is_ascii_def)

lemma upper_forms_no_lower:
  "map_of ascii_upper_forms ch = Some u \<Longrightarrow> c \<in> set u \<Longrightarrow> c \<in> set upper_letters"
  by (auto simp add: ascii_upper_forms_def upper_letters_def split: if_splits)

text \<open>
  Upper-casing leaves no lower-case letter of ASCII behind, provided the platform's
  upper-case forms of the other characters hold none, as those of Unicode do.
\<close>

lemma upper_char_no_lower:
  assumes H: "\<forall>ch. (\<forall>c \<in> set ch. \<not> is_ascii c) \<longrightarrow>
                (\<forall>c \<in> set (upper_other P ch). c \<notin> set lower_letters)"
    and ch: "(\<exists>c. ch = [c] \<and> is_ascii c) \<or> (\<forall>c \<in> set ch. \<not> is_ascii c)"
    and c: "c \<in> set (upper_char P ch)"
  shows "c \<notin> set lower_letters"
proof (cases "\<exists>a. ch = [a] \<and> is_ascii a")
  case True
  with c show ?thesis by (auto simp add: upper_char_def upcase_never_lower)
next
  case False
  with ch have na: "\<forall>c \<in> set ch. \<not> is_ascii c" by blast
  then have own: "\<forall>c \<in> set ch. c \<notin> set lower_letters"
    using lower_ascii by blast
  from H na have other: "\<forall>c \<in> set (upper_other P ch). c \<notin> set lower_letters"
    by blast
  have form: "\<And>u. map_of ascii_upper_forms ch = Some u \<Longrightarrow> c \<in> set u \<Longrightarrow>
                c \<notin> set lower_letters"
    using upper_forms_no_lower upper_not_lower by blast
  from c own other form show ?thesis
    by (auto simp add: upper_char_def upcase_never_lower
        split: list.splits if_splits option.splits)
qed

lemma toUpperCase_no_lower:
  assumes "\<forall>ch. (\<forall>c \<in> set ch. \<not> is_ascii c) \<longrightarrow>
             (\<forall>c \<in> set (upper_other P ch). c \<notin> set lower_letters)"
  shows "\<forall>c \<in> set (toUpperCase P s). c \<notin> set lower_letters"
  using upper_char_no_lower [OF assms chars_shape]
  by (auto simp add: toUpperCase_def)

lemma toUpperCase_ascii:
  assumes "\<forall>c \<in> set s. is_ascii c"
  shows "toUpperCase P s = map upcase_char s"
proof -
  have "concat (map (upper_char P) (map (\<lambda>c. [c]) s)) = map upcase_char s"
    using assms by (induction s) (simp_all add: upper_char_def)
  then show ?thesis
    by (simp add: toUpperCase_def chars_ascii [OF assms])
qed

lemma collapse_chars_bytes:
  "c \<in> set (concat (collapse_chars cs)) \<Longrightarrow> c \<in> set (concat cs) \<or> c = CHR '' ''"
proof (induction cs rule: collapse_chars.induct)
  case 1
  then show ?case by simp
next
  case (2 x xs)
  have sub: "\<And>y. y \<in> set (dropWhile is_space xs) \<Longrightarrow> y \<in> set xs"
    by (rule set_dropWhileD)
  show ?case
  proof (cases "is_space x")
    case True
    with 2 sub show ?thesis by auto
  next
    case False
    with 2 show ?thesis by auto
  qed
qed

lemma collapse_ws_bytes: "c \<in> set (collapse_ws s) \<Longrightarrow> c \<in> set s \<or> c = CHR '' ''"
  using collapse_chars_bytes [of c "chars s"] by (simp add: collapse_ws_def concat_chars)

lemma normalized_fixed:
  assumes "\<forall>ch. (\<forall>c \<in> set ch. \<not> is_ascii c) \<longrightarrow>
             (\<forall>c \<in> set (upper_other P ch). c \<notin> set lower_letters)"
  shows "\<forall>c \<in> set (collapse_ws (toUpperCase P s)). upcase_char c = c"
proof
  fix c assume "c \<in> set (collapse_ws (toUpperCase P s))"
  then have "c \<in> set (toUpperCase P s) \<or> c = CHR '' ''" by (rule collapse_ws_bytes)
  with toUpperCase_no_lower [OF assms, of s] have "c \<notin> set lower_letters"
    by (auto simp add: lower_letters_def)
  then show "upcase_char c = c" by (rule upcase_not_lower)
qed

section \<open>The case-insensitive pattern\<close>


text \<open>On text without lower-case letters the \<^verbatim>\<open>i\<close> flag changes nothing.\<close>

lemma rx_match_ci:
  "\<forall>c \<in> set s. upcase_char c = c \<Longrightarrow>
   \<forall>it \<in> set items. map upcase_char (fst it) = fst it \<Longrightarrow>
   rx_match True items s = rx_match False items s"
proof (induction True items s rule: rx_match.induct)
  case (1 s)
  then show ?case by simp
next
  case (2 cls lo hi rest)
  then show ?case by simp
next
  case (3 cls lo hi rest c cs)
  have a: "rx_match True rest (c # cs) = rx_match False rest (c # cs)"
    using 3 by simp
  have b: "rx_match True ((cls, lo - 1, hi - 1) # rest) cs
         = rx_match False ((cls, lo - 1, hi - 1) # rest) cs"
    using 3 by simp
  have c: "in_class True cls c = in_class False cls c"
    using 3(3,4) by (simp add: in_class_def)
  show ?case using a b c by simp
qed

lemma postcode_regex_fixed:
  "\<forall>it \<in> set postcode_regex. map upcase_char (fst it) = fst it"
  by (simp add: postcode_regex_def upcase_not_lower lower_letters_def upper_letters_def
      digits_def)

lemma in_class_cs:
  "in_class False upper_letters c = is_upper c"
  "in_class False digits c = is_digit c"
  "in_class False (digits @ ''R'') c = (is_digit c \<or> c = CHR ''R'')"
  "in_class False (digits @ upper_letters) c = (is_digit c \<or> is_upper c)"
  "in_class False '' '' c = (c = CHR '' '')"
  by (auto simp add: in_class_def is_upper_def is_digit_def)

lemma space_not_class:
  "\<not> is_upper (CHR '' '')" "\<not> is_digit (CHR '' '')"
  by (simp_all add: is_upper_def is_digit_def upper_letters_def digits_def)

text \<open>The pattern, read case-sensitively, accepts exactly the canonical grammar.\<close>

lemma rx_canonical: "rx_match False postcode_regex s = canonical_postcode s"
  unfolding postcode_regex_def canonical_postcode_def
  by (simp add: in_class_cs split: list.splits) (use space_not_class in blast)


lemma isValid_normalized:
  assumes "\<forall>ch. (\<forall>c \<in> set ch. \<not> is_ascii c) \<longrightarrow>
             (\<forall>c \<in> set (upper_other P ch). c \<notin> set lower_letters)"
  shows "isValidUKPostcode (collapse_ws (toUpperCase P s))
           = canonical_postcode (collapse_ws (toUpperCase P s))"
  unfolding isValidUKPostcode_def
  using rx_match_ci [OF normalized_fixed [OF assms] postcode_regex_fixed] rx_canonical
  by simp

section \<open>Normalisation, as the code and as the specification word it\<close>

lemma lstrip_dropWhile: "dropWhile is_space cs = lstrip cs"
  by (induction cs) simp_all

lemma rstrip_empty: "(rstrip cs = []) = (\<forall>c \<in> set cs. is_space c)"
  by (induction cs) auto

lemma rstrip_dropWhile: "rev (dropWhile is_space (rev cs)) = rstrip cs"
proof (induction cs)
  case Nil
  then show ?case by simp
next
  case (Cons c cs)
  show ?case
  proof (cases "\<forall>x \<in> set cs. is_space x")
    case True
    then have "rstrip cs = []" by (simp add: rstrip_empty)
    with True show ?thesis by (simp add: dropWhile_append)
  next
    case False
    then have ne: "rstrip cs \<noteq> []" by (simp add: rstrip_empty)
    from Cons have "dropWhile is_space (rev cs) = rev (rstrip cs)"
      by (metis rev_rev_ident)
    with False ne show ?thesis by (auto simp add: dropWhile_append)
  qed
qed

lemma squeeze_collapse:
  "collapse_chars cs = squeeze False cs
   \<and> collapse_chars (dropWhile is_space cs) = squeeze True cs"
  by (induction cs) simp_all

lemma trim_spec: "trim s = concat (rstrip (lstrip (chars s)))"
  by (simp only: trim_def rstrip_dropWhile) (simp only: lstrip_dropWhile)

lemma collapse_spec: "collapse_ws s = concat (squeeze False (chars s))"
  by (simp add: collapse_ws_def squeeze_collapse)

lemma normalizePostcode_Str: "normalizePostcode P (Str pc) = Inr (spec_normalize P pc)"
proof (cases "pc = []")
  case True
  then show ?thesis
    by (simp add: normalizePostcode_def spec_normalize_def toUpperCase_def)
next
  case False
  then show ?thesis
    by (simp add: normalizePostcode_def spec_normalize_def trim_spec collapse_spec)
qed

text \<open>
  White space and upper-case forms outside ASCII: a no-break space between the two
  halves, a long s for the first letter, a sharp s that becomes two letters.
\<close>

lemma normalizePostcode_unicode:
  "normalizePostcode P (Str (''sw1a'' @ [CHR 0xC2, CHR 0xA0] @ ''1aa'')) = Inr ''SW1A 1AA''"
  "normalizePostcode P (Str ([CHR 0xC5, CHR 0xBF] @ ''w1a 1aa'')) = Inr ''SW1A 1AA''"
  "normalizePostcode P (Str ([CHR 0xC3, CHR 0x9F] @ ''1 1aa'')) = Inr ''SS1 1AA''"
  by code_simp+

section \<open>Postcode validity\<close>

text \<open>
  Claim C7.  For every input string \<open>pc\<close>, \<^verbatim>\<open>normalizePostcode\<close> returns \<open>pc\<close> trimmed,
  upper-cased and with its runs of white space collapsed to single spaces, and
  \<^verbatim>\<open>isValidUKPostcode\<close> accepts that string if and only if it matches the canonical
  grammar \<^verbatim>\<open>^[A-Z]{1,2}[0-9R][0-9A-Z]? [0-9][A-Z]{2}$\<close> read case-sensitively.  White
  space and upper case are those of JavaScript; of the platform's table of upper-case
  forms the statement asks what Unicode grants: the upper-case form of a character
  outside ASCII holds no lower-case letter of ASCII.
\<close>

theorem isValid_normalize_iff_canonical:
  assumes "\<forall>ch. (\<forall>c \<in> set ch. \<not> is_ascii c) \<longrightarrow>
             (\<forall>c \<in> set (upper_other P ch). c \<notin> set lower_letters)"
  shows "\<exists>n. normalizePostcode P (Str pc) = Inr n
            \<and> n = spec_normalize P pc
            \<and> isValidUKPostcode n = canonical_postcode (spec_normalize P pc)"
proof -
  have n: "normalizePostcode P (Str pc) = Inr (spec_normalize P pc)"
    by (rule normalizePostcode_Str)
  have "spec_normalize P pc = collapse_ws (toUpperCase P (trim pc))"
    by (simp add: spec_normalize_def trim_spec collapse_spec)
  then have "isValidUKPostcode (spec_normalize P pc) = canonical_postcode (spec_normalize P pc)"
    using isValid_normalized [OF assms, of "trim pc"] by simp
  with n show ?thesis by simp
qed

text \<open>
  The instance of the platform used in the examples upper-cases no character outside
  ASCII by itself, so it meets what the theorem asks.
\<close>

lemma example_builtins_upper:
  "\<forall>ch. (\<forall>c \<in> set ch. \<not> is_ascii c) \<longrightarrow>
        (\<forall>c \<in> set (upper_other example_builtins ch). c \<notin> set lower_letters)"
  using lower_ascii by (auto simp add: example_builtins_def)

text \<open>
  A postcode in lower case with a space before it, a no-break space and two spaces
  inside it, and a space and a byte-order mark after it.
\<close>

theorem isValid_normalize_iff_canonical_witness:
  "normalizePostcode example_builtins
        (Str ('' sw1a'' @ [CHR 0xC2, CHR 0xA0] @ ''  1aa '' @ [CHR 0xEF, CHR 0xBB, CHR 0xBF]))
      = Inr ''SW1A 1AA''
   \<and> isValidUKPostcode ''SW1A 1AA''
   \<and> canonical_postcode
        (spec_normalize example_builtins
           ('' sw1a'' @ [CHR 0xC2, CHR 0xA0] @ ''  1aa '' @ [CHR 0xEF, CHR 0xBB, CHR 0xBF]))"
proof -
  let ?pc = "'' sw1a'' @ [CHR 0xC2, CHR 0xA0] @ ''  1aa '' @ [CHR 0xEF, CHR 0xBB, CHR 0xBF]"
  have n: "normalizePostcode example_builtins (Str ?pc) = Inr ''SW1A 1AA''"
    by code_simp
  have v: "isValidUKPostcode ''SW1A 1AA''"
    by code_simp
  from isValid_normalize_iff_canonical [OF example_builtins_upper, of ?pc] n v
  have c: "canonical_postcode (spec_normalize example_builtins ?pc)"
    by simp
  show ?thesis
    by (intro conjI) (rule n v c)+
qed

section \<open>Request validation\<close>

lemma validate_status:
  "validate req = Some r \<Longrightarrow> \<exists>msg. r = Reply 400 (error_body msg)"
  by (auto simp add: validate_def split: if_splits)

lemma valuation_rejected:
  "validate req = Some r \<Longrightarrow> valuation P key upstream req = (r, [])"
  by (simp add: valuation_def handle_def outer_catch_def)

text \<open>
  Claim C5.  The validator rejects exactly when one of \<^verbatim>\<open>postalCode\<close>,
  \<^verbatim>\<open>propertyType\<close>, \<^verbatim>\<open>purpose\<close> is missing (absent, or any other value that \<^verbatim>\<open>!x\<close>
  accepts), or \<^verbatim>\<open>propertyType\<close> is not one of the six types, or \<^verbatim>\<open>purpose\<close> is
  neither \<^verbatim>\<open>sale\<close> nor \<^verbatim>\<open>rent\<close>, or \<^verbatim>\<open>purpose\<close> is \<^verbatim>\<open>rent\<close> and \<^verbatim>\<open>bedrooms\<close> is missing
  or not one of \<^verbatim>\<open>"1"\<close>, \<^verbatim>\<open>"2"\<close>, \<^verbatim>\<open>"3"\<close>, \<^verbatim>\<open>"4"\<close> (the strings the form sends).
  Whenever it rejects, the handler's reply is that rejection, with status 400, and no
  URL has been called, whatever the postcode is: the postcode has not been looked at.
  A request that passes all the checks is not rejected by the validator.
\<close>

theorem validator_rejects_exactly:
  "((validate req \<noteq> None) =
      (\<not> truthy (postalCode req) \<or> \<not> truthy (propertyType req) \<or> \<not> truthy (purpose req)
       \<or> propertyType req \<notin> {Str ''detached'', Str ''semi-detached'', Str ''terraced'',
                               Str ''flat'', Str ''maisonette'', Str ''bungalow''}
       \<or> purpose req \<notin> {Str ''sale'', Str ''rent''}
       \<or> (purpose req = Str ''rent''
            \<and> (\<not> truthy (bedrooms req)
                 \<or> bedrooms req \<notin> {Str ''1'', Str ''2'', Str ''3'', Str ''4''}))))
   \<and> (validate req \<noteq> None \<longrightarrow>
        (\<exists>msg. validate req = Some (Reply 400 (error_body msg))
               \<and> valuation P key upstream req = (Reply 400 (error_body msg), [])))"
proof (intro conjI impI)
  show "(validate req \<noteq> None) =
      (\<not> truthy (postalCode req) \<or> \<not> truthy (propertyType req) \<or> \<not> truthy (purpose req)
       \<or> propertyType req \<notin> {Str ''detached'', Str ''semi-detached'', Str ''terraced'',
                               Str ''flat'', Str ''maisonette'', Str ''bungalow''}
       \<or> purpose req \<notin> {Str ''sale'', Str ''rent''}
       \<or> (purpose req = Str ''rent''
            \<and> (\<not> truthy (bedrooms req)
                 \<or> bedrooms req \<notin> {Str ''1'', Str ''2'', Str ''3'', Str ''4''})))"
    by (simp add: validate_def array_includes_def validPropertyTypes_def)
next
  assume "validate req \<noteq> None"
  then obtain r where r: "validate req = Some r" by blast
  from validate_status [OF r] obtain msg where "r = Reply 400 (error_body msg)" by blast
  with r valuation_rejected [OF r, of P key upstream]
  show "\<exists>msg. validate req = Some (Reply 400 (error_body msg))
               \<and> valuation P key upstream req = (Reply 400 (error_body msg), [])"
    by blast
qed

text \<open>
  A rent request without \<^verbatim>\<open>bedrooms\<close>, and with a postcode on which normalisation
  would throw: the reply is the validator's and nothing is called.
\<close>

theorem validator_rejects_exactly_witness:
  "validate \<lparr>postalCode = Num (Fin 7), propertyType = Str ''flat'', purpose = Str ''rent'',
             bedrooms = Undefined\<rparr> \<noteq> None
   \<and> valuation example_builtins ''k'' (\<lambda>url. Resolved (Obj []))
        \<lparr>postalCode = Num (Fin 7), propertyType = Str ''flat'', purpose = Str ''rent'',
         bedrooms = Undefined\<rparr>
      = (Reply 400 (error_body ''Number of bedrooms (1-4) is required for rental estimates''), [])"
  using validator_rejects_exactly
    [of "\<lparr>postalCode = Num (Fin 7), propertyType = Str ''flat'', purpose = Str ''rent'',
          bedrooms = Undefined\<rparr>" example_builtins "''k''" "\<lambda>url. Resolved (Obj [])"]
  by (auto simp add: validate_def array_includes_def validPropertyTypes_def)


section \<open>Postcode recovery\<close>

lemma map_upcase_fixed:
  "\<forall>c \<in> set cls. c \<notin> set lower_letters \<Longrightarrow> map upcase_char cls = cls"
  by (induction cls) (simp_all add: upcase_not_lower)

lemma digit_not_lower: "c \<in> set digits \<Longrightarrow> c \<notin> set lower_letters"
  by (auto simp add: lower_letters_def digits_def)

lemma in_class_alnum: "in_class True (upper_letters @ digits) c = is_alnum c"
proof -
  have fixed: "map upcase_char (upper_letters @ digits) = upper_letters @ digits"
    by (rule map_upcase_fixed) (auto simp add: upper_not_lower digit_not_lower)
  have cls: "in_class True (upper_letters @ digits) c
               = (upcase_char c \<in> set (upper_letters @ digits))"
    unfolding in_class_def fixed by simp
  show ?thesis
  proof (cases "c \<in> set lower_letters")
    case True
    then show ?thesis
      using upcase_lower [OF True] by (simp add: cls is_alnum_def)
  next
    case False
    then show ?thesis
      by (simp add: cls is_alnum_def upcase_not_lower)
  qed
qed

lemma slice_front: "3 \<le> length s \<Longrightarrow> slice s 0 (- 3) = take (length s - 3) s"
  by (simp add: slice_def Let_def nat_diff_distrib')

lemma slice_back: "3 \<le> length s \<Longrightarrow> slice_from s (- 3) = drop (length s - 3) s"
  by (simp add: slice_from_def slice_def Let_def nat_diff_distrib')

lemma alnum_ascii: "is_alnum c \<Longrightarrow> is_ascii c"
  using upper_ascii lower_ascii digit_ascii by (auto simp add: is_alnum_def)

lemma tryAutoFormat_Str:
  "tryAutoFormatPostcode P (Str raw) =
     Inr (let cleaned = map upcase_char (filter is_alnum raw);
              formatted = take (length cleaned - 3) cleaned @ '' ''
                            @ drop (length cleaned - 3) cleaned
          in if length cleaned < 5 \<or> 7 < length cleaned then None
             else if isValidUKPostcode formatted then Some formatted else None)"
proof -
  have eq: "filter (in_class True (upper_letters @ digits)) raw = filter is_alnum raw"
    by (rule filter_cong) (simp_all add: in_class_alnum)
  have up: "toUpperCase P (filter is_alnum raw) = map upcase_char (filter is_alnum raw)"
    by (rule toUpperCase_ascii) (simp add: alnum_ascii)
  show ?thesis
    by (simp add: tryAutoFormatPostcode_def eq up Let_def slice_front slice_back)
qed

lemma postcode_stage_Str:
  "postcode_stage P (Str raw) =
     (if isValidUKPostcode (spec_normalize P raw) then Inr (Some (spec_normalize P raw))
      else tryAutoFormatPostcode P (Str raw))"
proof -
  have nonempty: "\<And>f. isValidUKPostcode f \<Longrightarrow> f \<noteq> []"
    by (auto simp add: isValidUKPostcode_def postcode_regex_def)
  show ?thesis
    by (auto simp add: postcode_stage_def normalizePostcode_Str tryAutoFormat_Str Let_def
        dest: nonempty)
qed

lemma postcode_stage_not_Str:
  "truthy v \<Longrightarrow> \<forall>s. v \<noteq> Str s \<Longrightarrow> postcode_stage P v = Inl TypeError"
  by (cases v) (simp_all add: postcode_stage_def normalizePostcode_def)

lemma purpose_validated:
  "validate req = None \<Longrightarrow> purpose req = Str ''rent'' \<or> purpose req = Str ''sale''"
  by (auto simp add: validate_def array_includes_def split: if_splits)

lemma valuation_bad_postcode:
  "validate req = None \<Longrightarrow> postcode_stage P (postalCode req) = Inr None \<Longrightarrow>
   valuation P key upstream req
     = (Reply 400 (error_body ''Invalid UK postcode format. Example: SW1A 1AA''), [])"
  by (simp add: valuation_def handle_def outer_catch_def)

lemma valuation_rent:
  "validate req = None \<Longrightarrow> postcode_stage P (postalCode req) = Inr (Some pc) \<Longrightarrow>
   purpose req = Str ''rent'' \<Longrightarrow>
   valuation P key upstream req
     = outer_catch (rent_valuation P key upstream req pc (getOutcode pc))"
  by (simp add: valuation_def handle_def)

lemma valuation_sale:
  "validate req = None \<Longrightarrow> postcode_stage P (postalCode req) = Inr (Some pc) \<Longrightarrow>
   purpose req = Str ''sale'' \<Longrightarrow>
   valuation P key upstream req = outer_catch (sale_valuation P key upstream req pc)"
  by (simp add: valuation_def handle_def)

lemma valuation_postcode_not_Str:
  assumes "validate req = None" and "\<forall>s. postalCode req \<noteq> Str s"
  shows "valuation P key upstream req
           = (Reply 500 (error_body ''Failed to fetch valuation. Please try again later.''), [])"
proof -
  from assms(1) have "truthy (postalCode req)"
    by (simp add: validate_def split: if_splits)
  from postcode_stage_not_Str [OF this assms(2)] assms(1) show ?thesis
    by (simp add: valuation_def handle_def outer_catch_def)
qed

text \<open>
  Claim C6, as the code has it.  For a request that passes validation and whose
  \<^verbatim>\<open>postalCode\<close> is a string \<open>raw\<close>: \<^verbatim>\<open>tryAutoFormatPostcode\<close> keeps the letters and digits
  of ASCII and drops every other character (and upper-cases what it keeps), answers
  \<^verbatim>\<open>null\<close> when fewer than 5 or more than 7 characters remain, and otherwise puts one
  space before the last three characters and answers that text only if
  \<^verbatim>\<open>isValidUKPostcode\<close> accepts it.  The handler first normalises \<open>raw\<close> (trimmed,
  upper-cased, runs of white space collapsed) and keeps the result if it is valid;
  otherwise it takes what \<^verbatim>\<open>tryAutoFormatPostcode\<close> makes of \<open>raw\<close> itself; and when that
  is \<^verbatim>\<open>null\<close> too it replies 400 with the postcode-format message and has called no URL.
  A postcode recovered either way is the one the rent or sale path then works with.
\<close>

theorem postcode_recovery:
  assumes "validate req = None" and "postalCode req = Str raw"
  shows "tryAutoFormatPostcode P (Str raw) =
           Inr (let cleaned = map upcase_char (filter is_alnum raw);
                    formatted = take (length cleaned - 3) cleaned @ '' ''
                                  @ drop (length cleaned - 3) cleaned
                in if length cleaned < 5 \<or> 7 < length cleaned then None
                   else if isValidUKPostcode formatted then Some formatted else None)
       \<and> postcode_stage P (postalCode req) =
           (if isValidUKPostcode (spec_normalize P raw) then Inr (Some (spec_normalize P raw))
            else tryAutoFormatPostcode P (Str raw))
       \<and> (postcode_stage P (postalCode req) = Inr None \<longrightarrow>
            valuation P key upstream req
              = (Reply 400 (error_body ''Invalid UK postcode format. Example: SW1A 1AA''), []))
       \<and> (\<forall>pc. postcode_stage P (postalCode req) = Inr (Some pc) \<longrightarrow>
            valuation P key upstream req
              = outer_catch
                  (if purpose req = Str ''rent''
                   then rent_valuation P key upstream req pc (getOutcode pc)
                   else sale_valuation P key upstream req pc))"
proof (intro conjI impI allI)
  show "tryAutoFormatPostcode P (Str raw) =
           Inr (let cleaned = map upcase_char (filter is_alnum raw);
                    formatted = take (length cleaned - 3) cleaned @ '' ''
                                  @ drop (length cleaned - 3) cleaned
                in if length cleaned < 5 \<or> 7 < length cleaned then None
                   else if isValidUKPostcode formatted then Some formatted else None)"
    by (rule tryAutoFormat_Str)
  show "postcode_stage P (postalCode req) =
           (if isValidUKPostcode (spec_normalize P raw) then Inr (Some (spec_normalize P raw))
            else tryAutoFormatPostcode P (Str raw))"
    unfolding assms(2) by (rule postcode_stage_Str)
next
  assume "postcode_stage P (postalCode req) = Inr None"
  with assms(1) show "valuation P key upstream req
              = (Reply 400 (error_body ''Invalid UK postcode format. Example: SW1A 1AA''), [])"
    by (rule valuation_bad_postcode)
next
  fix pc
  assume pc: "postcode_stage P (postalCode req) = Inr (Some pc)"
  from purpose_validated [OF assms(1)]
  show "valuation P key upstream req
          = outer_catch
              (if purpose req = Str ''rent''
               then rent_valuation P key upstream req pc (getOutcode pc)
               else sale_valuation P key upstream req pc)"
    using valuation_rent [OF assms(1) pc, of key upstream]
      valuation_sale [OF assms(1) pc, of key upstream]
    by auto
qed

text \<open>A request whose postcode neither step recovers.\<close>

theorem postcode_recovery_witness:
  "validate \<lparr>postalCode = Str ''hello world'', propertyType = Str ''flat'',
             purpose = Str ''sale'', bedrooms = Undefined\<rparr> = None
   \<and> postcode_stage example_builtins (Str ''hello world'') = Inr None
   \<and> valuation example_builtins ''k'' (\<lambda>url. Resolved (Obj []))
        \<lparr>postalCode = Str ''hello world'', propertyType = Str ''flat'',
         purpose = Str ''sale'', bedrooms = Undefined\<rparr>
      = (Reply 400 (error_body ''Invalid UK postcode format. Example: SW1A 1AA''), [])"
proof -
  let ?req = "\<lparr>postalCode = Str ''hello world'', propertyType = Str ''flat'',
               purpose = Str ''sale'', bedrooms = Undefined\<rparr>"
  have v: "validate ?req = None"
    by (simp add: validate_def array_includes_def validPropertyTypes_def)
  have p: "postalCode ?req = Str ''hello world''"
    by simp
  have s: "postcode_stage example_builtins (Str ''hello world'') = Inr None"
    by code_simp
  have s': "postcode_stage example_builtins (postalCode ?req) = Inr None"
    unfolding p by (rule s)
  note th = postcode_recovery
    [OF v p, of example_builtins "''k''" "\<lambda>url. Resolved (Obj [])"]
  from th s' have res: "valuation example_builtins ''k'' (\<lambda>url. Resolved (Obj [])) ?req
      = (Reply 400 (error_body ''Invalid UK postcode format. Example: SW1A 1AA''), [])"
    by blast
  show ?thesis
    by (intro conjI) (rule v s res)+
qed

text \<open>
  Postcodes the first step rejects and the second recovers or does not, and one that the
  first step accepts once its sharp s is upper-cased.
\<close>

lemma postcode_recovery_examples:
  "postcode_stage P (Str ''hello world'') = Inr None"
  "postcode_stage P (Str ''sw1a-1aa'') = Inr (Some ''SW1A 1AA'')"
  "postcode_stage P (Str ([CHR 0xC5, CHR 0xBF] @ ''w1a 1aa'')) = Inr (Some ''SW1A 1AA'')"
  "postcode_stage P (Str ([CHR 0xC3, CHR 0x9F] @ ''1 1aa'')) = Inr (Some ''SS1 1AA'')"
  by code_simp+

text \<open>
  The claim as first stated speaks of every request that passes validation.  The
  validator tests \<^verbatim>\<open>postalCode\<close> for truth only, so the number 12345 passes; it has no
  \<^verbatim>\<open>trim\<close>, \<^verbatim>\<open>normalizePostcode\<close> throws, and the reply is the 500 of the outer \<^verbatim>\<open>catch\<close>,
  not a recovered postcode and not the 400 of the postcode format.
\<close>

theorem numeric_postcode_counterexample:
  "validate \<lparr>postalCode = Num (Fin 12345), propertyType = Str ''flat'',
             purpose = Str ''sale'', bedrooms = Undefined\<rparr> = None
   \<and> valuation example_builtins ''k'' (\<lambda>url. Resolved (Obj []))
        \<lparr>postalCode = Num (Fin 12345), propertyType = Str ''flat'',
         purpose = Str ''sale'', bedrooms = Undefined\<rparr>
      = (Reply 500 (Obj [(''error'', Str ''Failed to fetch valuation. Please try again later.'')]),
         [])"
  by code_simp

section \<open>The rent tries\<close>

lemma nullish_not_truthy: "nullish v \<Longrightarrow> \<not> truthy v"
  by (auto simp add: nullish_def)

lemma demand_rent_try_usable:
  "usable_payload (upstream url) = Some d \<Longrightarrow> demand_rent_try upstream url data = d"
  by (auto simp add: usable_payload_def demand_rent_try_def callPropertyDataAPI_def get_def
      split: outcome.splits if_splits)

lemma demand_rent_try_unusable:
  "usable_payload (upstream url) = None \<Longrightarrow> \<not> truthy data \<Longrightarrow>
   \<not> truthy (demand_rent_try upstream url data)"
  by (auto simp add: usable_payload_def demand_rent_try_def callPropertyDataAPI_def get_def
      split: outcome.splits if_splits)

lemma usable_truthy: "usable_payload out = Some d \<Longrightarrow> truthy d \<and> \<not> nullish d"
  by (auto simp add: usable_payload_def split: outcome.splits if_splits)

lemma slice_butlast: "slice s 0 (- 1) = butlast s"
  by (cases "s = []") (simp_all add: slice_def Let_def butlast_conv_take nat_diff_distrib')

lemma rent_data_tiers:
  "rent_data key upstream fullPostcode outcode =
     (case usable_payload (upstream (demand_rent_url key outcode)) of
        Some d \<Rightarrow> (Some d, [demand_rent_url key outcode])
      | None \<Rightarrow>
          if 3 < length outcode then
            (case usable_payload (upstream (demand_rent_url key (butlast outcode))) of
               Some d \<Rightarrow>
                 (Some d, [demand_rent_url key outcode, demand_rent_url key (butlast outcode)])
             | None \<Rightarrow>
                 third_try key upstream fullPostcode
                   [demand_rent_url key outcode, demand_rent_url key (butlast outcode)])
          else third_try key upstream fullPostcode [demand_rent_url key outcode])"
proof -
  let ?u1 = "demand_rent_url key outcode"
  let ?u2 = "demand_rent_url key (butlast outcode)"
  show ?thesis
  proof (cases "usable_payload (upstream ?u1)")
    case (Some d)
    with demand_rent_try_usable [of upstream ?u1 d Null] usable_truthy [of "upstream ?u1" d]
    show ?thesis
      by (simp add: rent_data_def Let_def)
  next
    case None
    from demand_rent_try_unusable [of upstream ?u1 Null] None
    have n1: "\<not> truthy (demand_rent_try upstream ?u1 Null)"
      by simp
    show ?thesis
    proof (cases "3 < length outcode")
      case False
      with None n1 show ?thesis
        by (simp add: rent_data_def Let_def third_try_def callPropertyDataAPI_def
            split: outcome.splits)
    next
      case True
      show ?thesis
      proof (cases "usable_payload (upstream ?u2)")
        case (Some d)
        with demand_rent_try_usable [of upstream ?u2 d "demand_rent_try upstream ?u1 Null"]
          usable_truthy [of "upstream ?u2" d] None n1 True
        show ?thesis
          by (simp add: rent_data_def Let_def slice_butlast)
      next
        case n2: None
        from demand_rent_try_unusable [of upstream ?u2 "demand_rent_try upstream ?u1 Null"]
          n2 n1
        have "\<not> truthy (demand_rent_try upstream ?u2 (demand_rent_try upstream ?u1 Null))"
          by simp
        with None n1 True n2 show ?thesis
          by (simp add: rent_data_def Let_def slice_butlast third_try_def
              callPropertyDataAPI_def split: outcome.splits)
      qed
    qed
  qed
qed





lemma valuation_rent_nodata:
  assumes "validate req = None" and "purpose req = Str ''rent''"
    and "postcode_stage P (postalCode req) = Inr (Some pc)"
    and "rent_data key upstream pc (getOutcode pc) = (None, calls)"
  shows "valuation P key upstream req
           = (Reply 404 (error_body
                ''No rental market data available for this area. Try a nearby postcode.''), calls)"
  using assms(4)
  by (simp add: valuation_rent [OF assms(1,3,2)] rent_valuation_def outer_catch_def)





section \<open>The third rent try\<close>

text \<open>When the third call is rejected, the request does end with the 404 reply.\<close>

lemma third_try_rejected:
  assumes "validate req = None" and "purpose req = Str ''rent''"
    and "postcode_stage P (postalCode req) = Inr (Some pc)"
    and "usable_payload (upstream (demand_rent_url key (getOutcode pc))) = None"
    and "usable_payload (upstream (demand_rent_url key (butlast (getOutcode pc)))) = None"
    and "upstream (local_market_url key pc) = Rejected e"
  shows "fst (valuation P key upstream req)
           = Reply 404 (error_body
               ''No rental market data available for this area. Try a nearby postcode.'')"
proof -
  from assms(4,5,6) have "fst (rent_data key upstream pc (getOutcode pc)) = None"
    by (simp add: rent_data_tiers third_try_def)
  then obtain calls where "rent_data key upstream pc (getOutcode pc) = (None, calls)"
    by (cases "rent_data key upstream pc (getOutcode pc)") simp
  from valuation_rent_nodata [OF assms(1,2,3) this] show ?thesis by simp
qed

text \<open>
  Claim C1.  When the first two tries gave no usable payload and the local-market call
  fails too, a response whose \<^verbatim>\<open>status\<close> field signals an error included, the request
  should end with the 404 "no rental data" error and no rent result.  The third try,
  unlike the first two, never reads \<^verbatim>\<open>status\<close>: below, both demand-rent calls time out
  and the local-market call resolves with an error body, and the handler answers 200
  with a rent result whose every figure is \<^verbatim>\<open>"N/A"\<close>.
\<close>

theorem local_market_error_body_is_used:
  "valuation example_builtins ''k''
     (\<lambda>url. if url = local_market_url ''k'' ''SW1A 1AA''
            then Resolved (Obj [(''status'', Str ''error''), (''code'', Str ''X14''),
                                (''message'', Str ''No data for this postcode'')])
            else Rejected ECONNABORTED)
     \<lparr>postalCode = Str ''SW1A 1AA'', propertyType = Str ''flat'',
      purpose = Str ''rent'', bedrooms = Str ''2''\<rparr>
   = (Reply 200
        (Obj [(''type'', Str ''rent''), (''postcode'', Str ''SW1A 1AA''),
              (''rentalDemand'', Str ''N/A''), (''totalForRent'', Str ''N/A''),
              (''daysOnMarket'', Str ''N/A''), (''monthsOfInventory'', Str ''N/A''),
              (''averageRent'', Str ''N/A''), (''originalAverageRent'', Str ''N/A''),
              (''yield'', Str ''N/A''), (''note'', Null)]),
      [demand_rent_url ''k'' ''SW1A'', demand_rent_url ''k'' ''SW1'',
       local_market_url ''k'' ''SW1A 1AA''])"
  by code_simp


section \<open>Doubles\<close>

text \<open>
  For \<open>a > 0\<close>, \<open>binade a\<close> is the one exponent \<open>e\<close> with \<open>2 powi e \<le> a < 2 powi (e + 1)\<close>;
  so a number known to lie in a binade, and to be nearer to \<open>m\<close> steps of that binade
  than to any other number of steps, rounds to those \<open>m\<close> steps.
\<close>

lemma ilog2_bounds:
  "1 \<le> n \<Longrightarrow> 0 \<le> ilog2 n \<and> 2 ^ nat (ilog2 n) \<le> n \<and> n < 2 * 2 ^ nat (ilog2 n)"
proof (induction n rule: ilog2.induct)
  case (1 n)
  show ?case
  proof (cases "n < 2")
    case True
    with 1(2) have "n = 1" by simp
    then show ?thesis by (simp add: ilog2.simps)
  next
    case False
    then have h: "1 \<le> n div 2" by simp
    from 1(1) [OF False h]
    have k: "0 \<le> ilog2 (n div 2)" and lo: "2 ^ nat (ilog2 (n div 2)) \<le> n div 2"
      and hi: "n div 2 < 2 * 2 ^ nat (ilog2 (n div 2))"
      by simp_all
    have eq: "ilog2 n = 1 + ilog2 (n div 2)"
      using False by (subst ilog2.simps) simp
    have nat_eq: "nat (1 + ilog2 (n div 2)) = Suc (nat (ilog2 (n div 2)))"
      using k by simp
    have a: "2 * (n div 2) \<le> n" by simp
    have b: "n < 2 * (n div 2) + 2" by simp
    from k lo hi a b show ?thesis
      unfolding eq nat_eq by simp
  qed
qed

lemma binade_bounds:
  assumes "0 < a"
  shows "2 powi (binade a) \<le> a \<and> a < 2 powi (binade a + 1)"
proof (cases "1 \<le> a")
  case True
  then have n: "1 \<le> \<lfloor>a\<rfloor>" by simp
  note b = ilog2_bounds [OF n]
  let ?k = "ilog2 \<lfloor>a\<rfloor>"
  have e: "binade a = ?k" using True by (simp add: binade_def)
  have p: "(2::rat) powi ?k = 2 ^ nat ?k"
    using b power_int_nonneg_exp [of ?k "2::rat"] by blast
  have p1: "(2::rat) powi (?k + 1) = 2 * 2 ^ nat ?k"
    using p by (simp add: power_int_add)
  have lo: "(2::rat) ^ nat ?k \<le> a"
  proof -
    have "(of_int (2 ^ nat ?k) :: rat) \<le> of_int \<lfloor>a\<rfloor>"
      using b by (simp only: of_int_le_iff)
    also have "\<dots> \<le> a" by simp
    finally show ?thesis by simp
  qed
  have hi: "a < 2 * (2::rat) ^ nat ?k"
  proof -
    have "\<lfloor>a\<rfloor> + 1 \<le> 2 * 2 ^ nat ?k" using b by simp
    then have "(of_int (\<lfloor>a\<rfloor> + 1) :: rat) \<le> of_int (2 * 2 ^ nat ?k)"
      by (simp only: of_int_le_iff)
    moreover have "a < of_int (\<lfloor>a\<rfloor> + 1)" using floor_correct [of a] by blast
    ultimately show ?thesis by simp
  qed
  show ?thesis unfolding e p p1 using lo hi by simp
next
  case False
  with assms have inv: "1 < 1 / a" by simp
  then have n: "1 \<le> \<lceil>1 / a\<rceil> - 1"
    by (smt (verit) ceiling_less_one less_ceiling_iff of_int_1)
  note b = ilog2_bounds [OF n]
  let ?j = "ilog2 (\<lceil>1 / a\<rceil> - 1)"
  have e: "binade a = - (1 + ?j)" using False by (simp add: binade_def)
  have p0: "(2::rat) powi ?j = 2 ^ nat ?j"
    using b power_int_nonneg_exp [of ?j "2::rat"] by blast
  have p: "(2::rat) powi (- (1 + ?j)) = 1 / (2 * 2 ^ nat ?j)"
    unfolding power_int_minus_divide using p0 by (simp add: power_int_add)
  have "(2::rat) powi (- (1 + ?j) + 1) = 2 powi (- ?j)"
    by simp
  then have p1: "(2::rat) powi (- (1 + ?j) + 1) = 1 / 2 ^ nat ?j"
    unfolding power_int_minus_divide using p0 by simp
  have up: "1 / a \<le> 2 * (2::rat) ^ nat ?j"
  proof -
    have "\<lceil>1 / a\<rceil> \<le> 2 * 2 ^ nat ?j" using b by simp
    then have "(of_int \<lceil>1 / a\<rceil> :: rat) \<le> of_int (2 * 2 ^ nat ?j)"
      by (simp only: of_int_le_iff)
    then have A: "(of_int \<lceil>1 / a\<rceil> :: rat) \<le> 2 * 2 ^ nat ?j"
      by simp
    have B: "1 / a \<le> of_int \<lceil>1 / a\<rceil>"
      by (rule le_of_int_ceiling)
    from B A show ?thesis by (rule order_trans)
  qed
  have dn: "(2::rat) ^ nat ?j < 1 / a"
  proof -
    have "(of_int (2 ^ nat ?j) :: rat) \<le> of_int (\<lceil>1 / a\<rceil> - 1)"
      using b by (simp only: of_int_le_iff)
    moreover have "(of_int (\<lceil>1 / a\<rceil> - 1) :: rat) < 1 / a"
      by (simp add: ceiling_correct)
    ultimately show ?thesis by simp
  qed
  have lo: "1 / (2 * 2 ^ nat ?j) \<le> a"
    using up assms by (simp add: field_simps)
  have hi: "a < 1 / 2 ^ nat ?j"
    using dn assms by (simp add: field_simps)
  show ?thesis unfolding e p p1 using lo hi by simp
qed

lemma binade_eq:
  assumes "2 powi e \<le> a" and "a < 2 powi (e + 1)"
  shows "binade a = e"
proof -
  have pos: "0 < a"
    using assms(1) by (rule less_le_trans [rotated]) simp
  note b = binade_bounds [OF pos]
  have "\<not> binade a < e"
  proof
    assume "binade a < e"
    then have "(2::rat) powi (binade a + 1) \<le> 2 powi e"
      by (intro power_int_increasing) simp_all
    with b assms show False by simp
  qed
  moreover have "\<not> e < binade a"
  proof
    assume "e < binade a"
    then have "(2::rat) powi (e + 1) \<le> 2 powi (binade a)"
      by (intro power_int_increasing) simp_all
    with b assms show False by simp
  qed
  ultimately show ?thesis by simp
qed

lemma round_half_even_eq:
  assumes "\<bar>x - of_int m\<bar> < 1 / 2"
  shows "round_half_even x = m"
proof (cases "of_int m \<le> x")
  case True
  with assms have "\<lfloor>x\<rfloor> = m" by (intro floor_unique) simp_all
  with assms True show ?thesis by (simp add: round_half_even_def Let_def)
next
  case False
  with assms have f: "\<lfloor>x\<rfloor> = m - 1" by (intro floor_unique) simp_all
  from assms False have "1 / 2 < x - of_int (m - 1)" by simp
  with f show ?thesis by (simp add: round_half_even_def Let_def)
qed

lemma round_double_normal:
  assumes "- 1022 \<le> e" and "2 powi e \<le> q" and "q < 2 powi (e + 1)"
    and "\<bar>q / 2 powi (e - 52) - of_int m\<bar> < 1 / 2"
    and "of_int m * 2 powi (e - 52) < (2::rat) ^ 1024"
  shows "round_double q = Fin (of_int m * 2 powi (e - 52))"
proof -
  have pos: "0 < q"
    using assms(2) by (rule less_le_trans [rotated]) simp
  have a: "\<bar>q\<bar> = q"
    using pos by simp
  have b: "binade q = e"
    using assms(2,3) by (rule binade_eq)
  have r: "round_half_even (q / 2 powi (e - 52)) = m"
    using assms(4) by (rule round_half_even_eq)
  have mx: "max e (- 1022) = e"
    using assms(1) by simp
  show ?thesis
    unfolding round_double_def a b mx Let_def r using pos assms(5) by simp
qed

lemma floor_le_round_half_even: "\<lfloor>x\<rfloor> \<le> round_half_even x"
  by (simp add: round_half_even_def Let_def)

lemma round_double_overflow:
  assumes "2 ^ 1024 \<le> q"
  shows "round_double q = PosInf"
proof -
  have pos: "0 < q"
    using assms by (rule less_le_trans [rotated]) simp
  have a: "\<bar>q\<bar> = q"
    using pos by simp
  note b = binade_bounds [OF pos]
  let ?e = "binade q"
  have e: "1024 \<le> ?e"
  proof (rule ccontr)
    assume "\<not> 1024 \<le> ?e"
    then have "(2::rat) powi (?e + 1) \<le> 2 powi 1024"
      by (intro power_int_increasing) simp_all
    with b assms show False by simp
  qed
  have mx: "max ?e (- 1022) = ?e"
    using e by simp
  let ?ulp = "(2::rat) powi (?e - 52)"
  have split: "(2::rat) powi ?e = 2 ^ 52 * ?ulp"
    using power_int_add [of "2::rat" 52 "?e - 52"] by simp
  have "2 ^ 52 * ?ulp \<le> q"
    using b split by simp
  then have x: "(2::rat) ^ 52 \<le> q / ?ulp"
    by (simp add: pos_le_divide_eq)
  have "(2::int) ^ 52 \<le> \<lfloor>q / ?ulp\<rfloor>"
    using x by (simp add: le_floor_iff)
  with floor_le_round_half_even [of "q / ?ulp"]
  have "(2::int) ^ 52 \<le> round_half_even (q / ?ulp)"
    by (rule order_trans [rotated])
  then have "(of_int (2 ^ 52) :: rat) \<le> of_int (round_half_even (q / ?ulp))"
    by (simp only: of_int_le_iff)
  then have "(2::rat) ^ 52 * ?ulp \<le> of_int (round_half_even (q / ?ulp)) * ?ulp"
    by (simp add: mult_right_mono)
  then have r: "(2::rat) powi ?e \<le> of_int (round_half_even (q / ?ulp)) * ?ulp"
    unfolding split .
  have "(2::rat) powi 1024 \<le> 2 powi ?e"
    using e by (intro power_int_increasing) simp_all
  with r have "(2::rat) ^ 1024 \<le> of_int (round_half_even (q / ?ulp)) * ?ulp"
    by simp
  then show ?thesis
    unfolding round_double_def a mx Let_def using pos by simp
qed

text \<open>The doubles that the literals 0.8, 1.3 and 1.6 denote, and the small integers.\<close>

lemma double_literals:
  "round_double (8 / 10) = Fin (3602879701896397 / 4503599627370496)"
  "round_double (13 / 10) = Fin (5854679515581645 / 4503599627370496)"
  "round_double (16 / 10) = Fin (3602879701896397 / 2251799813685248)"
  using round_double_normal [of "- 1" "8 / 10" 7205759403792794]
    round_double_normal [of 0 "13 / 10" 5854679515581645]
    round_double_normal [of 0 "16 / 10" 7205759403792794]
  by simp_all

lemma double_small:
  "round_double 1 = Fin 1" "round_double 2 = Fin 2"
  "round_double 3 = Fin 3" "round_double 4 = Fin 4"
  using round_double_normal [of 0 1 4503599627370496]
    round_double_normal [of 1 2 4503599627370496]
    round_double_normal [of 1 3 6755399441055744]
    round_double_normal [of 2 4 4503599627370496]
  by simp_all

lemma js_times_Fin: "js_times (Fin a) (Fin b) = round_double (a * b)"
  by (simp add: js_times_def)




section \<open>Rent adjustment\<close>

lemma parseInt_bedrooms:
  "parseInt_text ''1'' = Fin 1" "parseInt_text ''2'' = Fin 2"
  "parseInt_text ''3'' = Fin 3" "parseInt_text ''4'' = Fin 4"
  by (simp_all add: parseInt_text_def Let_def is_ascii_def is_space_def unicode_spaces_def
      is_digit_def digits_def digit_value_def double_small)

lemma multiplier_table:
  "multiplier_for (Fin 1) = round_double (8 / 10)" "multiplier_for (Fin 2) = round_double 1"
  "multiplier_for (Fin 3) = round_double (13 / 10)"
  "multiplier_for (Fin 4) = round_double (16 / 10)"
  unfolding multiplier_for_def multipliers_def double_literals double_small
  by simp_all

lemma spec_multiplier_table:
  "spec_multiplier (Str ''1'') = 8 / 10" "spec_multiplier (Str ''2'') = 1"
  "spec_multiplier (Str ''3'') = 13 / 10" "spec_multiplier (Str ''4'') = 16 / 10"
  by (simp_all add: spec_multiplier_def)


lemma bedroom_multiplier:
  assumes "beds \<in> {Str ''1'', Str ''2'', Str ''3'', Str ''4''}"
  shows "multiplier_for (parseInt10 P beds) = round_double (spec_multiplier beds)"
proof -
  from assms consider "beds = Str ''1''" | "beds = Str ''2''" | "beds = Str ''3''"
    | "beds = Str ''4''" by blast
  then show ?thesis
  proof cases
    case 1
    show ?thesis
      unfolding 1 spec_multiplier_table(1) multiplier_table(1) [symmetric]
      by (simp add: parseInt10_def parseInt_bedrooms)
  next
    case 2
    show ?thesis
      unfolding 2 spec_multiplier_table(2) multiplier_table(2) [symmetric]
      by (simp add: parseInt10_def parseInt_bedrooms)
  next
    case 3
    show ?thesis
      unfolding 3 spec_multiplier_table(3) multiplier_table(3) [symmetric]
      by (simp add: parseInt10_def parseInt_bedrooms)
  next
    case 4
    show ?thesis
      unfolding 4 spec_multiplier_table(4) multiplier_table(4) [symmetric]
      by (simp add: parseInt10_def parseInt_bedrooms)
  qed
qed

lemma parseFloat_number: "parseFloat P (Num n) = n"
  by (simp add: parseFloat_def)

lemma adjust_guard:
  assumes "truthy v" and "\<not> isNaN P v"
    and "beds \<in> {Str ''1'', Str ''2'', Str ''3'', Str ''4''}"
  shows "fst (adjust P v beds)
           = Num (Math_round (js_times (parseFloat P v) (round_double (spec_multiplier beds))))"
    and "snd (adjust P v beds) \<noteq> []"
  using assms(1,2)
  by (simp_all add: adjust_def bedroom_multiplier [OF assms(3)] Let_def)



text \<open>
  The product is rounded as the code rounds it.  5000000000000003 times the double of
  0.8 lies between the doubles 4000000000000002.5 and 4000000000000003 and nearer to the
  first, which \<^verbatim>\<open>Math.round\<close> takes up to 4000000000000003 (the exact product with 0.8
  would give 4000000000000002).  A product from \<open>2 ^ 1024\<close> on is infinite, and so is
  the rent then.
\<close>

lemma adjust_rounds_the_product:
  "fst (adjust P (Num (Fin 5000000000000003)) (Str ''1'')) = Num (Fin 4000000000000003)"
proof -
  have t: "truthy (Num (Fin 5000000000000003))" by simp
  have n: "\<not> isNaN P (Num (Fin 5000000000000003))" by (simp add: isNaN_def)
  have p: "js_times (Fin 5000000000000003) (round_double (8 / 10))
             = Fin (8000000000000005 / 2)"
    unfolding double_literals js_times_Fin
    using round_double_normal
      [of 51 "5000000000000003 * (3602879701896397 / 4503599627370496)" 8000000000000005]
    by simp
  have r: "Math_round (Fin (8000000000000005 / 2)) = Fin 4000000000000003"
  proof -
    have "\<lfloor>(8000000000000005 / 2 :: rat) + 1 / 2\<rfloor> = 4000000000000003"
      by (rule floor_unique) simp_all
    then show ?thesis by (simp add: Math_round_def)
  qed
  show ?thesis
    unfolding adjust_guard(1) [OF t n, of "Str ''1''", simplified]
      parseFloat_number spec_multiplier_table p r ..
qed

lemma adjust_overflows:
  assumes "2 ^ 1024 \<le> n * (3602879701896397 / 2251799813685248)"
  shows "fst (adjust P (Num (Fin n)) (Str ''4'')) = Num PosInf"
proof -
  from assms have "n \<noteq> 0" by auto
  then have t: "truthy (Num (Fin n))" by simp
  have nn: "\<not> isNaN P (Num (Fin n))" by (simp add: isNaN_def)
  have p: "js_times (Fin n) (round_double (16 / 10)) = PosInf"
    unfolding double_literals js_times_Fin using assms by (rule round_double_overflow)
  show ?thesis
    unfolding adjust_guard(1) [OF t nn, of "Str ''4''", simplified]
      parseFloat_number spec_multiplier_table p
    by (simp add: Math_round_def)
qed

lemma adjust_overflow_example:
  "fst (adjust P (Num (Fin (12 * 10 ^ 307))) (Str ''4'')) = Num PosInf"
  by (rule adjust_overflows) simp






section \<open>Defaulted fields\<close>

lemma sale_result_fields:
  "property (sale_result P t pc saleData used) ''postcode''
     = js_or (property saleData ''postcode'') (Str pc)"
  "property (sale_result P t pc saleData used) ''average''
     = js_or (opt_get (property saleData ''data'') ''average'') (Str ''N/A'')"
  "property (sale_result P t pc saleData used) ''range70''
     = js_or (opt_get (property saleData ''data'') ''70pc_range'') (Arr [])"
  "property (sale_result P t pc saleData used) ''range90''
     = js_or (opt_get (property saleData ''data'') ''90pc_range'') (Arr [])"
  "property (sale_result P t pc saleData used) ''pointsAnalysed''
     = js_or (opt_get (property saleData ''data'') ''points_analysed'') (Num (Fin 0))"
  "property (sale_result P t pc saleData used) ''type'' = Str ''sale''"
  "property (sale_result P t pc saleData used) ''note''
     = (if used = Str ''all''
        then Str ([CHR 0xE2, CHR 0x9A, CHR 0xA0, CHR 0xEF, CHR 0xB8, CHR 0x8F]
                    @ '' No recent sales for '' @ [CHR 0x22] @ ToString P t @ [CHR 0x22]
                    @ '' in this postcode. Showing overall area average.'')
        else Null)"
  "property (sale_result P t pc saleData used) ''propertyType''
     = (if used = Str ''all''
        then Str (ToString P t @ '' (not found '' @ [CHR 0xE2, CHR 0x80, CHR 0x93]
                    @ '' showing area average)'')
        else t)"
  by (simp_all add: sale_result_def)




section \<open>The sale path\<close>

lemma sold_prices_try_Inr:
  "(sold_prices_try upstream url = Inr saleData)
     = (upstream url = Resolved saleData \<and> \<not> nullish saleData
        \<and> property saleData ''status'' \<noteq> Str ''error'')"
  by (auto simp add: sold_prices_try_def callPropertyDataAPI_def get_def
      split: outcome.splits if_splits)

lemma propertyType_validated:
  "validate req = None \<Longrightarrow>
   \<exists>t. propertyType req = Str t \<and> t \<in> set validPropertyTypes"
  by (auto simp add: validate_def array_includes_def split: if_splits)

lemma valid_type_not_all: "t \<in> set validPropertyTypes \<Longrightarrow> Str t \<noteq> Str ''all''"
  by (auto simp add: validPropertyTypes_def)

lemma sale_first_ok:
  assumes "validate req = None" and "purpose req = Str ''sale''"
    and "postcode_stage P (postalCode req) = Inr (Some pc)"
    and "propertyType req = Str t"
    and "sold_prices_try upstream (sold_prices_url key pc t) = Inr saleData"
  shows "valuation P key upstream req
           = (Reply 200 (sale_result P (Str t) pc saleData (Str t)), [sold_prices_url key pc t])"
  using assms(4,5)
  by (simp add: valuation_sale [OF assms(1,3,2)] sale_valuation_def outer_catch_def Let_def)

lemma sale_rethrown:
  assumes "validate req = None" and "purpose req = Str ''sale''"
    and "postcode_stage P (postalCode req) = Inr (Some pc)"
    and "propertyType req = Str t"
    and "sold_prices_try upstream (sold_prices_url key pc t) = Inl error"
    and "type_unsupported error \<noteq> Inr True"
  shows "valuation P key upstream req
           = (Reply 500 (error_body ''Failed to fetch valuation. Please try again later.''),
              [sold_prices_url key pc t])"
  using assms(4,5,6)
  by (cases "type_unsupported error")
     (auto simp add: valuation_sale [OF assms(1,3,2)] sale_valuation_def outer_catch_def Let_def)

lemma sale_fallback_ok:
  assumes "validate req = None" and "purpose req = Str ''sale''"
    and "postcode_stage P (postalCode req) = Inr (Some pc)"
    and "propertyType req = Str t"
    and "sold_prices_try upstream (sold_prices_url key pc t) = Inl error"
    and "type_unsupported error = Inr True"
    and "sold_prices_try upstream (sold_prices_fallback_url key pc) = Inr saleData"
  shows "valuation P key upstream req
           = (Reply 200 (sale_result P (Str t) pc saleData (Str ''all'')),
              [sold_prices_url key pc t, sold_prices_fallback_url key pc])"
  using assms(4,5,6,7)
  by (simp add: valuation_sale [OF assms(1,3,2)] sale_valuation_def outer_catch_def Let_def)

lemma sale_fallback_fails:
  assumes "validate req = None" and "purpose req = Str ''sale''"
    and "postcode_stage P (postalCode req) = Inr (Some pc)"
    and "propertyType req = Str t"
    and "sold_prices_try upstream (sold_prices_url key pc t) = Inl error"
    and "type_unsupported error = Inr True"
    and "sold_prices_try upstream (sold_prices_fallback_url key pc) = Inl e2"
  shows "valuation P key upstream req
           = (Reply 404 (error_body (''No recent sale data for '' @ t @ '' properties in '' @ pc
                @ ''. This area may not have this property type.'')),
              [sold_prices_url key pc t, sold_prices_fallback_url key pc])"
  using assms(4,5,6,7)
  by (simp add: valuation_sale [OF assms(1,3,2)] sale_valuation_def outer_catch_def Let_def)

lemma sale_fallback_calls:
  assumes "validate req = None" and "purpose req = Str ''sale''"
    and "postcode_stage P (postalCode req) = Inr (Some pc)"
    and "propertyType req = Str t"
    and "sold_prices_try upstream (sold_prices_url key pc t) = Inl error"
    and "type_unsupported error = Inr True"
  shows "snd (valuation P key upstream req)
           = [sold_prices_url key pc t, sold_prices_fallback_url key pc]"
  using assms(4,5,6)
  by (simp add: valuation_sale [OF assms(1,3,2)] sale_valuation_def outer_catch_def Let_def
      split: sum.splits)

lemma type_unsupported_902:
  "property d ''code'' = Str ''902'' \<Longrightarrow> property d ''message'' = Str m \<Longrightarrow>
   contains m ''type'' \<Longrightarrow> type_unsupported (Axios (ErrResponse d)) = Inr True"
  by (auto simp add: type_unsupported_def opt_get_def nullish_def)

text \<open>
  What the sale path does with the error the handler takes to mean that the property
  type is not supported (a rejection whose response body has code \<^verbatim>\<open>"902"\<close> and a
  message that includes \<^verbatim>\<open>"type"\<close>): the same endpoint is called once more without the
  type filter, and nothing else is called; when that second try succeeds, the reply is
  the sale result built with \<^verbatim>\<open>usedType = "all"\<close>: its \<^verbatim>\<open>propertyType\<close> names the
  substitution and its note is not \<^verbatim>\<open>null\<close>.  When the first try succeeds, that URL is the
  only one called and the note is \<^verbatim>\<open>null\<close>.
\<close>

lemma sale_fallback_on_rejection:
  assumes "validate req = None" and "purpose req = Str ''sale''"
    and "postcode_stage P (postalCode req) = Inr (Some pc)"
    and "propertyType req = Str t"
  shows "(\<forall>error. sold_prices_try upstream (sold_prices_url key pc t) = Inl error
                 \<and> type_unsupported error = Inr True \<longrightarrow>
            snd (valuation P key upstream req)
              = [sold_prices_url key pc t, sold_prices_fallback_url key pc]
            \<and> (\<forall>saleData.
                  sold_prices_try upstream (sold_prices_fallback_url key pc) = Inr saleData \<longrightarrow>
                    valuation P key upstream req
                      = (Reply 200 (sale_result P (Str t) pc saleData (Str ''all'')),
                         [sold_prices_url key pc t, sold_prices_fallback_url key pc])
                    \<and> property (sale_result P (Str t) pc saleData (Str ''all'')) ''propertyType''
                        = Str (t @ '' (not found '' @ [CHR 0xE2, CHR 0x80, CHR 0x93]
                                 @ '' showing area average)'')
                    \<and> property (sale_result P (Str t) pc saleData (Str ''all'')) ''note''
                        \<noteq> Null))
     \<and> (\<forall>saleData. sold_prices_try upstream (sold_prices_url key pc t) = Inr saleData \<longrightarrow>
            valuation P key upstream req
              = (Reply 200 (sale_result P (Str t) pc saleData (Str t)),
                 [sold_prices_url key pc t])
            \<and> property (sale_result P (Str t) pc saleData (Str t)) ''propertyType'' = Str t
            \<and> property (sale_result P (Str t) pc saleData (Str t)) ''note'' = Null)"
proof -
  from propertyType_validated [OF assms(1)] assms(4)
  have "t \<in> set validPropertyTypes" by simp
  then have na: "Str t \<noteq> Str ''all''" by (rule valid_type_not_all)
  have fb: "snd (valuation P key upstream req)
              = [sold_prices_url key pc t, sold_prices_fallback_url key pc]
            \<and> (\<forall>saleData.
                  sold_prices_try upstream (sold_prices_fallback_url key pc) = Inr saleData \<longrightarrow>
                    valuation P key upstream req
                      = (Reply 200 (sale_result P (Str t) pc saleData (Str ''all'')),
                         [sold_prices_url key pc t, sold_prices_fallback_url key pc])
                    \<and> property (sale_result P (Str t) pc saleData (Str ''all'')) ''propertyType''
                        = Str (t @ '' (not found '' @ [CHR 0xE2, CHR 0x80, CHR 0x93]
                                 @ '' showing area average)'')
                    \<and> property (sale_result P (Str t) pc saleData (Str ''all'')) ''note''
                        \<noteq> Null)"
    if e: "sold_prices_try upstream (sold_prices_url key pc t) = Inl error"
      and u: "type_unsupported error = Inr True" for error
    using sale_fallback_calls [OF assms e u] sale_fallback_ok [OF assms e u]
    by (simp add: sale_result_fields)
  have ok: "valuation P key upstream req
              = (Reply 200 (sale_result P (Str t) pc saleData (Str t)),
                 [sold_prices_url key pc t])
            \<and> property (sale_result P (Str t) pc saleData (Str t)) ''propertyType'' = Str t
            \<and> property (sale_result P (Str t) pc saleData (Str t)) ''note'' = Null"
    if "sold_prices_try upstream (sold_prices_url key pc t) = Inr saleData" for saleData
    using sale_first_ok [OF assms that] na
    by (simp add: sale_result_fields)
  from fb ok show ?thesis by blast
qed

text \<open>
  Claim C3.  When the first sold-prices response signals that the property type is not
  supported for the area, the handler should call the same endpoint again without the
  type filter and answer with the area average and a note.  The handler does read the
  signal in a response that resolves: it throws an \<^verbatim>\<open>Error\<close> made from a body whose
  status is \<^verbatim>\<open>"error"\<close>.  Its \<^verbatim>\<open>catch\<close> then looks for the code in \<^verbatim>\<open>error.response\<close>,
  which only the error of a rejected call has, so the \<^verbatim>\<open>Error\<close> it has just thrown is
  thrown on.  Below, the typed call for a bungalow resolves with the body
  \<^verbatim>\<open>{status: "error", code: "902", message: "No data for property type bungalow"}\<close>: the
  reply is the 500 of the outer \<^verbatim>\<open>catch\<close> after that one call, and no call without the
  type filter is made.  When the same body comes with a rejected call, the second call
  is made, to the same endpoint without \<^verbatim>\<open>&type=bungalow\<close>, and its payload is answered
  with the substitution named and a note.
\<close>

theorem resolved_type_error_is_not_retried:
  "valuation example_builtins ''k''
     (\<lambda>url. Resolved (Obj [(''status'', Str ''error''), (''code'', Str ''902''),
                           (''message'', Str ''No data for property type bungalow'')]))
     \<lparr>postalCode = Str ''SW1A 1AA'', propertyType = Str ''bungalow'',
      purpose = Str ''sale'', bedrooms = Undefined\<rparr>
   = (Reply 500 (Obj [(''error'', Str ''Failed to fetch valuation. Please try again later.'')]),
      [''https://api.propertydata.co.uk/sold-prices?key=k&postcode=SW1A 1AA&type=bungalow&max_age=12''])
   \<and> valuation example_builtins ''k''
     (\<lambda>url. if url = ''https://api.propertydata.co.uk/sold-prices?key=k&postcode=SW1A 1AA&max_age=12''
            then Resolved (Obj [(''status'', Str ''success''),
                                (''data'', Obj [(''average'', Num (Fin 350000))])])
            else Rejected (ErrResponse
                   (Obj [(''status'', Str ''error''), (''code'', Str ''902''),
                         (''message'', Str ''No data for property type bungalow'')])))
     \<lparr>postalCode = Str ''SW1A 1AA'', propertyType = Str ''bungalow'',
      purpose = Str ''sale'', bedrooms = Undefined\<rparr>
   = (Reply 200
        (Obj [(''type'', Str ''sale''), (''postcode'', Str ''SW1A 1AA''),
              (''propertyType'',
                 Str (''bungalow (not found '' @ [CHR 0xE2, CHR 0x80, CHR 0x93]
                        @ '' showing area average)'')),
              (''average'', Num (Fin 350000)), (''range70'', Arr []), (''range90'', Arr []),
              (''pointsAnalysed'', Num (Fin 0)),
              (''note'',
                 Str ([CHR 0xE2, CHR 0x9A, CHR 0xA0, CHR 0xEF, CHR 0xB8, CHR 0x8F]
                        @ '' No recent sales for '' @ [CHR 0x22] @ ''bungalow'' @ [CHR 0x22]
                        @ '' in this postcode. Showing overall area average.''))]),
      [''https://api.propertydata.co.uk/sold-prices?key=k&postcode=SW1A 1AA&type=bungalow&max_age=12'',
       ''https://api.propertydata.co.uk/sold-prices?key=k&postcode=SW1A 1AA&max_age=12''])"
  by code_simp

text \<open>
  Claim C2, as the code has it.  For a sale request that passes validation and the
  postcode stage: any error the first sold-prices try throws, other than the one that
  signals an unsupported property type, is rethrown to the outer \<^verbatim>\<open>catch\<close> and ends the
  request with status 500 and the generic message, after that one call; when the first
  try throws the unsupported-type error and the fallback try fails as well, the request
  ends with status 404 and the message that there is no recent sale data for this type
  in this postcode.
\<close>

theorem sale_errors:
  assumes "validate req = None" and "purpose req = Str ''sale''"
    and "postcode_stage P (postalCode req) = Inr (Some pc)"
    and "propertyType req = Str t"
  shows "(\<forall>error. sold_prices_try upstream (sold_prices_url key pc t) = Inl error
                 \<and> type_unsupported error \<noteq> Inr True \<longrightarrow>
            valuation P key upstream req
              = (Reply 500 (error_body ''Failed to fetch valuation. Please try again later.''),
                 [sold_prices_url key pc t]))
     \<and> (\<forall>error e2. sold_prices_try upstream (sold_prices_url key pc t) = Inl error
                 \<and> type_unsupported error = Inr True
                 \<and> sold_prices_try upstream (sold_prices_fallback_url key pc) = Inl e2 \<longrightarrow>
            valuation P key upstream req
              = (Reply 404 (error_body (''No recent sale data for '' @ t @ '' properties in ''
                   @ pc @ ''. This area may not have this property type.'')),
                 [sold_prices_url key pc t, sold_prices_fallback_url key pc]))"
  using sale_rethrown [OF assms, of upstream key]
    sale_fallback_fails [OF assms, of upstream key]
  by blast

text \<open>A first call that times out, and a first and second call both rejected with code 902.\<close>

theorem sale_errors_witness:
  "validate \<lparr>postalCode = Str ''SW1A 1AA'', propertyType = Str ''bungalow'',
             purpose = Str ''sale'', bedrooms = Undefined\<rparr> = None
   \<and> postcode_stage example_builtins (Str ''SW1A 1AA'') = Inr (Some ''SW1A 1AA'')
   \<and> type_unsupported (Axios ECONNABORTED) \<noteq> Inr True
   \<and> valuation example_builtins ''k'' (\<lambda>url. Rejected ECONNABORTED)
        \<lparr>postalCode = Str ''SW1A 1AA'', propertyType = Str ''bungalow'',
         purpose = Str ''sale'', bedrooms = Undefined\<rparr>
      = (Reply 500 (error_body ''Failed to fetch valuation. Please try again later.''),
         [sold_prices_url ''k'' ''SW1A 1AA'' ''bungalow''])
   \<and> type_unsupported (Axios (ErrResponse
         (Obj [(''status'', Str ''error''), (''code'', Str ''902''),
               (''message'', Str ''No data for this property type'')]))) = Inr True
   \<and> valuation example_builtins ''k''
        (\<lambda>url. Rejected (ErrResponse
                  (Obj [(''status'', Str ''error''), (''code'', Str ''902''),
                        (''message'', Str ''No data for this property type'')])))
        \<lparr>postalCode = Str ''SW1A 1AA'', propertyType = Str ''bungalow'',
         purpose = Str ''sale'', bedrooms = Undefined\<rparr>
      = (Reply 404 (error_body (''No recent sale data for '' @ ''bungalow'' @ '' properties in ''
           @ ''SW1A 1AA'' @ ''. This area may not have this property type.'')),
         [sold_prices_url ''k'' ''SW1A 1AA'' ''bungalow'',
          sold_prices_fallback_url ''k'' ''SW1A 1AA''])"
proof -
  let ?req = "\<lparr>postalCode = Str ''SW1A 1AA'', propertyType = Str ''bungalow'',
               purpose = Str ''sale'', bedrooms = Undefined\<rparr>"
  let ?err = "Obj [(''status'', Str ''error''), (''code'', Str ''902''),
                   (''message'', Str ''No data for this property type'')]"
  let ?up1 = "\<lambda>url::string. Rejected ECONNABORTED"
  let ?up2 = "\<lambda>url::string. Rejected (ErrResponse ?err)"
  have v: "validate ?req = None"
    by (simp add: validate_def array_includes_def validPropertyTypes_def)
  have r: "purpose ?req = Str ''sale''"
    by simp
  have t: "propertyType ?req = Str ''bungalow''"
    by simp
  have s: "postcode_stage example_builtins (Str ''SW1A 1AA'') = Inr (Some ''SW1A 1AA'')"
    by code_simp
  have p: "postcode_stage example_builtins (postalCode ?req) = Inr (Some ''SW1A 1AA'')"
    using s by simp
  have e1: "sold_prices_try ?up1 (sold_prices_url ''k'' ''SW1A 1AA'' ''bungalow'')
              = Inl (Axios ECONNABORTED)"
    by (simp add: sold_prices_try_def callPropertyDataAPI_def)
  have n1: "type_unsupported (Axios ECONNABORTED) \<noteq> Inr True"
    by (simp add: type_unsupported_def)
  have e2: "sold_prices_try ?up2 (sold_prices_url ''k'' ''SW1A 1AA'' ''bungalow'')
              = Inl (Axios (ErrResponse ?err))"
    by (simp add: sold_prices_try_def callPropertyDataAPI_def)
  have u2: "type_unsupported (Axios (ErrResponse ?err)) = Inr True"
    by code_simp
  have f2: "sold_prices_try ?up2 (sold_prices_fallback_url ''k'' ''SW1A 1AA'')
              = Inl (Axios (ErrResponse ?err))"
    by (simp add: sold_prices_try_def callPropertyDataAPI_def)
  from sale_errors [OF v r p t, of ?up1 "''k''"] e1 n1
  have r1: "valuation example_builtins ''k'' ?up1 ?req
      = (Reply 500 (error_body ''Failed to fetch valuation. Please try again later.''),
         [sold_prices_url ''k'' ''SW1A 1AA'' ''bungalow''])"
    by blast
  from sale_errors [OF v r p t, of ?up2 "''k''"] e2 u2 f2
  have r2: "valuation example_builtins ''k'' ?up2 ?req
      = (Reply 404 (error_body (''No recent sale data for '' @ ''bungalow'' @ '' properties in ''
           @ ''SW1A 1AA'' @ ''. This area may not have this property type.'')),
         [sold_prices_url ''k'' ''SW1A 1AA'' ''bungalow'',
          sold_prices_fallback_url ''k'' ''SW1A 1AA''])"
    by blast
  show ?thesis
    by (intro conjI) (rule v s n1 r1 u2 r2)+
qed

text \<open>
  The claim as first stated gives the 404 sale error to every first-call error other than
  the unsupported-type one.  A timeout of the first call ends in 500.
\<close>

theorem sale_timeout_counterexample:
  "valuation example_builtins ''k'' (\<lambda>url. Rejected ECONNABORTED)
     \<lparr>postalCode = Str ''SW1A 1AA'', propertyType = Str ''flat'',
      purpose = Str ''sale'', bedrooms = Undefined\<rparr>
   = (Reply 500 (error_body ''Failed to fetch valuation. Please try again later.''),
      [sold_prices_url ''k'' ''SW1A 1AA'' ''flat''])"
  by code_simp


section \<open>A sale scenario\<close>

lemma opt_get_defined: "property v k \<noteq> Undefined \<Longrightarrow> opt_get v k = property v k"
  by (cases v) (simp_all add: opt_get_def nullish_def)

text \<open>
  Claim C9.  For the request \<^verbatim>\<open>{postalCode: "sw1a1aa", propertyType: "flat", purpose:
  "sale"}\<close> the postcode stage yields \<^verbatim>\<open>SW1A 1AA\<close>, whose outcode is \<^verbatim>\<open>SW1A\<close>; and when
  the first sold-prices call resolves with a payload (one without an error status, and
  with no postcode of its own or with this same postcode) whose data block has average
  500000, 70% range [400000, 600000] and 42 points analysed, the reply is a sale result
  with type
  \<^verbatim>\<open>"sale"\<close>, postcode \<^verbatim>\<open>SW1A 1AA\<close>, average 500000, range70 [400000, 600000],
  pointsAnalysed 42 and a \<^verbatim>\<open>null\<close> note, after that one call.
\<close>

theorem scenario_sw1a1aa:
  assumes "upstream (sold_prices_url key ''SW1A 1AA'' ''flat'') = Resolved payload"
    and "\<not> nullish payload"
    and "property payload ''status'' \<noteq> Str ''error''"
    and "\<not> truthy (property payload ''postcode'')
         \<or> property payload ''postcode'' = Str ''SW1A 1AA''"
    and "property (property payload ''data'') ''average'' = Num (Fin 500000)"
    and "property (property payload ''data'') ''70pc_range''
           = Arr [Num (Fin 400000), Num (Fin 600000)]"
    and "property (property payload ''data'') ''points_analysed'' = Num (Fin 42)"
  shows "postcode_stage P (Str ''sw1a1aa'') = Inr (Some ''SW1A 1AA'')
     \<and> getOutcode ''SW1A 1AA'' = ''SW1A''
     \<and> (\<exists>b. valuation P key upstream
               \<lparr>postalCode = Str ''sw1a1aa'', propertyType = Str ''flat'',
                purpose = Str ''sale'', bedrooms = Undefined\<rparr>
              = (Reply 200 b, [sold_prices_url key ''SW1A 1AA'' ''flat''])
          \<and> property b ''type'' = Str ''sale''
          \<and> property b ''postcode'' = Str ''SW1A 1AA''
          \<and> property b ''average'' = Num (Fin 500000)
          \<and> property b ''range70'' = Arr [Num (Fin 400000), Num (Fin 600000)]
          \<and> property b ''pointsAnalysed'' = Num (Fin 42)
          \<and> property b ''note'' = Null)"
proof -
  let ?req = "\<lparr>postalCode = Str ''sw1a1aa'', propertyType = Str ''flat'',
               purpose = Str ''sale'', bedrooms = Undefined\<rparr>"
  have v: "validate ?req = None"
    by (simp add: validate_def array_includes_def validPropertyTypes_def)
  have r: "purpose ?req = Str ''sale''"
    by simp
  have t: "propertyType ?req = Str ''flat''"
    by simp
  have s: "postcode_stage P (Str ''sw1a1aa'') = Inr (Some ''SW1A 1AA'')"
    by code_simp
  have p: "postcode_stage P (postalCode ?req) = Inr (Some ''SW1A 1AA'')"
    using s by simp
  have oc: "getOutcode ''SW1A 1AA'' = ''SW1A''"
    by (simp add: getOutcode_def)
  from assms(1,2,3)
  have ok: "sold_prices_try upstream (sold_prices_url key ''SW1A 1AA'' ''flat'') = Inr payload"
    by (simp add: sold_prices_try_Inr)
  have reply: "valuation P key upstream ?req
      = (Reply 200 (sale_result P (Str ''flat'') ''SW1A 1AA'' payload (Str ''flat'')),
         [sold_prices_url key ''SW1A 1AA'' ''flat''])"
    by (rule sale_first_ok [OF v r p t ok])
  have flds: "property (sale_result P (Str ''flat'') ''SW1A 1AA'' payload (Str ''flat'')) ''type''
          = Str ''sale''
     \<and> property (sale_result P (Str ''flat'') ''SW1A 1AA'' payload (Str ''flat'')) ''postcode''
          = Str ''SW1A 1AA''
     \<and> property (sale_result P (Str ''flat'') ''SW1A 1AA'' payload (Str ''flat'')) ''average''
          = Num (Fin 500000)
     \<and> property (sale_result P (Str ''flat'') ''SW1A 1AA'' payload (Str ''flat'')) ''range70''
          = Arr [Num (Fin 400000), Num (Fin 600000)]
     \<and> property (sale_result P (Str ''flat'') ''SW1A 1AA'' payload (Str ''flat''))
          ''pointsAnalysed'' = Num (Fin 42)
     \<and> property (sale_result P (Str ''flat'') ''SW1A 1AA'' payload (Str ''flat'')) ''note''
          = Null"
    using assms(4,5,6,7)
    by (auto simp add: sale_result_fields opt_get_defined js_or_def)
  from s oc reply flds show ?thesis by blast
qed

text \<open>The whole reply for one such payload.\<close>

theorem scenario_sw1a1aa_witness:
  "\<not> nullish (Obj [(''status'', Str ''success''),
                   (''data'', Obj [(''average'', Num (Fin 500000)),
                                   (''70pc_range'', Arr [Num (Fin 400000), Num (Fin 600000)]),
                                   (''points_analysed'', Num (Fin 42))])])
   \<and> valuation example_builtins ''k''
        (\<lambda>url. Resolved
           (Obj [(''status'', Str ''success''),
                 (''data'', Obj [(''average'', Num (Fin 500000)),
                                 (''70pc_range'', Arr [Num (Fin 400000), Num (Fin 600000)]),
                                 (''points_analysed'', Num (Fin 42))])]))
        \<lparr>postalCode = Str ''sw1a1aa'', propertyType = Str ''flat'',
         purpose = Str ''sale'', bedrooms = Undefined\<rparr>
      = (Reply 200
           (Obj [(''type'', Str ''sale''), (''postcode'', Str ''SW1A 1AA''),
                 (''propertyType'', Str ''flat''), (''average'', Num (Fin 500000)),
                 (''range70'', Arr [Num (Fin 400000), Num (Fin 600000)]),
                 (''range90'', Arr []), (''pointsAnalysed'', Num (Fin 42)),
                 (''note'', Null)]),
         [sold_prices_url ''k'' ''SW1A 1AA'' ''flat''])
   \<and> property (reply_body (fst (valuation example_builtins ''k''
        (\<lambda>url. Resolved
           (Obj [(''status'', Str ''success''),
                 (''data'', Obj [(''average'', Num (Fin 500000)),
                                 (''70pc_range'', Arr [Num (Fin 400000), Num (Fin 600000)]),
                                 (''points_analysed'', Num (Fin 42))])]))
        \<lparr>postalCode = Str ''sw1a1aa'', propertyType = Str ''flat'',
         purpose = Str ''sale'', bedrooms = Undefined\<rparr>))) ''average'' = Num (Fin 500000)"
proof -
  let ?payload = "Obj [(''status'', Str ''success''),
                   (''data'', Obj [(''average'', Num (Fin 500000)),
                                   (''70pc_range'', Arr [Num (Fin 400000), Num (Fin 600000)]),
                                   (''points_analysed'', Num (Fin 42))])]"
  let ?up = "\<lambda>url::string. Resolved ?payload"
  let ?req = "\<lparr>postalCode = Str ''sw1a1aa'', propertyType = Str ''flat'',
               purpose = Str ''sale'', bedrooms = Undefined\<rparr>"
  have h1: "?up (sold_prices_url ''k'' ''SW1A 1AA'' ''flat'') = Resolved ?payload"
    by simp
  have h2: "\<not> nullish ?payload"
    by (simp add: nullish_def)
  have h3: "property ?payload ''status'' \<noteq> Str ''error''"
    by simp
  have h4: "\<not> truthy (property ?payload ''postcode'')
            \<or> property ?payload ''postcode'' = Str ''SW1A 1AA''"
    by simp
  have h5: "property (property ?payload ''data'') ''average'' = Num (Fin 500000)"
    by simp
  have h6: "property (property ?payload ''data'') ''70pc_range''
              = Arr [Num (Fin 400000), Num (Fin 600000)]"
    by simp
  have h7: "property (property ?payload ''data'') ''points_analysed'' = Num (Fin 42)"
    by simp
  have full: "valuation example_builtins ''k'' ?up ?req
      = (Reply 200
           (Obj [(''type'', Str ''sale''), (''postcode'', Str ''SW1A 1AA''),
                 (''propertyType'', Str ''flat''), (''average'', Num (Fin 500000)),
                 (''range70'', Arr [Num (Fin 400000), Num (Fin 600000)]),
                 (''range90'', Arr []), (''pointsAnalysed'', Num (Fin 42)),
                 (''note'', Null)]),
         [sold_prices_url ''k'' ''SW1A 1AA'' ''flat''])"
    by code_simp
  from scenario_sw1a1aa [of ?up "''k''" ?payload example_builtins, OF h1 h2 h3 h4 h5 h6 h7]
  obtain b where "valuation example_builtins ''k'' ?up ?req
                    = (Reply 200 b, [sold_prices_url ''k'' ''SW1A 1AA'' ''flat''])"
    and "property b ''average'' = Num (Fin 500000)"
    by blast
  then have avg: "property (reply_body (fst (valuation example_builtins ''k'' ?up ?req)))
                    ''average'' = Num (Fin 500000)"
    by simp
  show ?thesis
    by (intro conjI) (rule h2 full avg)+
qed


end
